theory Spec2Isabelle
  imports Main
begin

section \<open>Signed tokens\<close>

text \<open>
  The backend signs and verifies its tokens with the \<open>jsonwebtoken\<close> package. A token is
  modelled symbolically: either a string that is no token at all, or a token that carries
  the key it was signed with and its claims. Forging a signature without the key is outside
  the model. Time is the JavaScript clock in milliseconds; the claims \<open>iat\<close> and \<open>exp\<close>
  are in seconds, as the package writes them.
\<close>

datatype role = ADMIN | USER

record payload =
  userId :: nat
  email :: "string option"
  role :: "role option"
  name :: "string option"
  tokenType :: "string option"

record claims =
  c_payload :: payload
  iat :: nat
  exp :: nat
  iss :: "string option"
  aud :: "string option"

datatype token = Malformed string | Signed string claims

text \<open>A thrown JavaScript error: the constructor is the error's \<open>name\<close>, the argument its message.\<close>

datatype js_error = Error string | JsonWebTokenError string | TokenExpiredError string

record sign_options =
  expiresIn :: nat
  issuer :: "string option"
  audience :: "string option"

text \<open>
  \<open>jwt.sign(payload, secret, options)\<close>: refuses a missing or empty secret, stamps the
  claims with the issue time and the expiry, and signs.
\<close>

definition jwt_sign :: "payload \<Rightarrow> string option \<Rightarrow> sign_options \<Rightarrow> nat \<Rightarrow> js_error + token" where
  "jwt_sign p secretOrKey opts now =
     (case secretOrKey of
        None \<Rightarrow> Inl (Error ''secretOrPrivateKey must have a value'')
      | Some k \<Rightarrow>
          if k = [] then Inl (Error ''secretOrPrivateKey must have a value'')
          else Inr (Signed k \<lparr>c_payload = p, iat = now div 1000,
                              exp = now div 1000 + expiresIn opts,
                              iss = issuer opts, aud = audience opts\<rparr>))"

text \<open>
  \<open>jwt.verify(token, secret, options)\<close>: the checks in the package's order (shape,
  key, signature, expiry, audience, issuer). An audience or issuer is checked only when
  the caller asks for one.
\<close>

definition jwt_verify :: "token \<Rightarrow> string option \<Rightarrow> string option \<Rightarrow> string option \<Rightarrow> nat \<Rightarrow> js_error + claims" where
  "jwt_verify tok secretOrKey wantIssuer wantAudience now =
     (case tok of
        Malformed s \<Rightarrow> Inl (JsonWebTokenError ''jwt malformed'')
      | Signed k c \<Rightarrow>
          (case secretOrKey of
             None \<Rightarrow> Inl (JsonWebTokenError ''secret or public key must be provided'')
           | Some s \<Rightarrow>
               if s = [] then Inl (JsonWebTokenError ''secret or public key must be provided'')
               else if k \<noteq> s then Inl (JsonWebTokenError ''invalid signature'')
               else if exp c \<le> now div 1000 then Inl (TokenExpiredError ''jwt expired'')
               else if wantAudience \<noteq> None \<and> aud c \<noteq> wantAudience
                 then Inl (JsonWebTokenError ''jwt audience invalid'')
               else if wantIssuer \<noteq> None \<and> iss c \<noteq> wantIssuer
                 then Inl (JsonWebTokenError ''jwt issuer invalid'')
               else Inr c))"

section \<open>Configuration and stored records\<close>

text \<open>
  The environment variables the token code reads. A lifetime is held as the number of
  seconds its string stands for; \<open>None\<close> is an unset (or empty) variable.
\<close>

record env =
  JWT_SECRET :: "string option"
  JWT_REFRESH_SECRET :: "string option"
  REFRESH_TOKEN_SECRET :: "string option"
  JWT_EXPIRES_IN :: "nat option"
  JWT_REFRESH_EXPIRES_IN :: "nat option"
  REFRESH_TOKEN_EXPIRES_IN :: "nat option"

text \<open>A row of the user table, without its two timestamps, which no route here reads.\<close>

record user =
  u_id :: nat
  u_name :: string
  u_email :: string
  u_password :: string
  u_role :: role
  u_isActive :: bool

record refresh_token =
  rt_id :: nat
  rt_token :: token
  rt_userId :: nat
  rt_expiresAt :: nat
  rt_createdAt :: nat

text \<open>
  The two tables the authentication code touches, each in insertion order, and the
  supply of fresh identifiers. Every query is taken to run to completion: a request is
  served at one instant \<open>now\<close>.
\<close>

record auth_db =
  users :: "user list"
  refreshTokens :: "refresh_token list"
  nextId :: nat

section \<open>Token service (utils/jwt.js)\<close>

definition generateAccessToken :: "env \<Rightarrow> nat \<Rightarrow> user \<Rightarrow> js_error + token" where
  "generateAccessToken e now u =
     jwt_sign \<lparr>userId = u_id u, email = Some (u_email u), role = Some (u_role u),
               name = Some (u_name u), tokenType = None\<rparr>
       (JWT_SECRET e)
       \<lparr>expiresIn = (case JWT_EXPIRES_IN e of None \<Rightarrow> 15 * 60 | Some n \<Rightarrow> n),
        issuer = Some ''joseluiscastro-portfolio'', audience = Some ''portfolio-users''\<rparr>
       now"

definition generateRefreshToken :: "env \<Rightarrow> nat \<Rightarrow> user \<Rightarrow> js_error + token" where
  "generateRefreshToken e now u =
     jwt_sign \<lparr>userId = u_id u, email = Some (u_email u), role = None,
               name = None, tokenType = Some ''refresh''\<rparr>
       (JWT_REFRESH_SECRET e)
       \<lparr>expiresIn = (case JWT_REFRESH_EXPIRES_IN e of None \<Rightarrow> 7 * 24 * 60 * 60 | Some n \<Rightarrow> n),
        issuer = Some ''joseluiscastro-portfolio'', audience = Some ''portfolio-users''\<rparr>
       now"

text \<open>
  Both verifiers catch whatever the package throws and throw one error of their own.
  Here and below the Spanish messages are written without their accents.
\<close>

definition verifyAccessToken :: "env \<Rightarrow> nat \<Rightarrow> token \<Rightarrow> js_error + claims" where
  "verifyAccessToken e now tok =
     (case jwt_verify tok (JWT_SECRET e) (Some ''joseluiscastro-portfolio'')
             (Some ''portfolio-users'') now of
        Inr c \<Rightarrow> Inr c
      | Inl err \<Rightarrow> Inl (Error ''Token de acceso invalido o expirado''))"

definition verifyRefreshToken :: "env \<Rightarrow> nat \<Rightarrow> token \<Rightarrow> js_error + claims" where
  "verifyRefreshToken e now tok =
     (case jwt_verify tok (JWT_REFRESH_SECRET e) (Some ''joseluiscastro-portfolio'')
             (Some ''portfolio-users'') now of
        Inr c \<Rightarrow> Inr c
      | Inl err \<Rightarrow> Inl (Error ''Token de refresco invalido o expirado''))"

text \<open>
  \<open>prisma.refreshToken.create\<close>: the token column is unique (the refresh route reads it
  with \<open>findUnique\<close>), so a second record with a stored token is refused. The new record
  takes a fresh identifier and the current time as its creation time.
\<close>

definition refreshToken_create :: "auth_db \<Rightarrow> nat \<Rightarrow> token \<Rightarrow> nat \<Rightarrow> nat \<Rightarrow> refresh_token option \<times> auth_db" where
  "refreshToken_create db now tok uid expiresAt =
     (if tok \<in> rt_token ` set (refreshTokens db) then (None, db)
      else
        let r = \<lparr>rt_id = nextId db, rt_token = tok, rt_userId = uid,
                 rt_expiresAt = expiresAt, rt_createdAt = now\<rparr>
        in (Some r, db\<lparr>refreshTokens := refreshTokens db @ [r], nextId := Suc (nextId db)\<rparr>))"

text \<open>
  \<open>orderBy: { createdAt: 'desc' }\<close>. Records created at the same instant come out
  latest insertion first.
\<close>

definition orderByCreatedAtDesc :: "refresh_token list \<Rightarrow> refresh_token list" where
  "orderByCreatedAtDesc rs = rev (sort_key rt_createdAt rs)"

definition saveRefreshToken :: "auth_db \<Rightarrow> nat \<Rightarrow> nat \<Rightarrow> token \<Rightarrow> nat \<Rightarrow> (js_error + refresh_token) \<times> auth_db" where
  "saveRefreshToken db now uid tok expiresAt =
     (let db1 = db\<lparr>refreshTokens :=
                  filter (\<lambda>r. \<not> (rt_userId r = uid \<and> rt_expiresAt r < now)) (refreshTokens db)\<rparr>;
          existingTokens =
            orderByCreatedAtDesc (filter (\<lambda>r. rt_userId r = uid) (refreshTokens db1));
          db2 = (if 5 \<le> length existingTokens
                 then let tokensToDelete = drop 4 existingTokens
                      in db1\<lparr>refreshTokens :=
                             filter (\<lambda>r. rt_id r \<notin> rt_id ` set tokensToDelete) (refreshTokens db1)\<rparr>
                 else db1)
      in (case refreshToken_create db2 now tok uid expiresAt of
            (Some r, db3) \<Rightarrow> (Inr r, db3)
          | (None, db3) \<Rightarrow> (Inl (Error ''Error interno del servidor''), db3)))"

text \<open>
  \<open>findRefreshToken\<close>: the first stored record with this token that has not expired yet,
  joined with its owner.
\<close>

definition findRefreshToken :: "auth_db \<Rightarrow> nat \<Rightarrow> token \<Rightarrow> (refresh_token \<times> user option) option" where
  "findRefreshToken db now tok =
     (case find (\<lambda>r. rt_token r = tok \<and> now < rt_expiresAt r) (refreshTokens db) of
        None \<Rightarrow> None
      | Some r \<Rightarrow> Some (r, find (\<lambda>u. u_id u = rt_userId r) (users db)))"

definition deleteRefreshToken :: "auth_db \<Rightarrow> token \<Rightarrow> bool \<times> auth_db" where
  "deleteRefreshToken db tok =
     (True, db\<lparr>refreshTokens := filter (\<lambda>r. rt_token r \<noteq> tok) (refreshTokens db)\<rparr>)"

definition deleteAllUserRefreshTokens :: "auth_db \<Rightarrow> nat \<Rightarrow> bool \<times> auth_db" where
  "deleteAllUserRefreshTokens db uid =
     (True, db\<lparr>refreshTokens := filter (\<lambda>r. rt_userId r \<noteq> uid) (refreshTokens db)\<rparr>)"

text \<open>\<open>cleanExpiredTokens\<close>: one \<open>deleteMany\<close> on the expiry, and the number of rows it removed.\<close>

definition cleanExpiredTokens :: "auth_db \<Rightarrow> nat \<Rightarrow> nat \<times> auth_db" where
  "cleanExpiredTokens db now =
     (length (filter (\<lambda>r. rt_expiresAt r < now) (refreshTokens db)),
      db\<lparr>refreshTokens := filter (\<lambda>r. \<not> rt_expiresAt r < now) (refreshTokens db)\<rparr>)"

section \<open>JSON bodies\<close>

text \<open>
  The value of a JavaScript expression or of a JSON body, as far as the routes and the
  client look at it. \<open>JTok\<close> is a string that is a token.
\<close>

datatype json =
    JUndefined | JNull | JBool bool | JNum int | JStr string | JTok token
  | JObj "(string \<times> json) list"

text \<open>Truthiness, as \<open>if (x)\<close> and \<open>!x\<close> read it.\<close>

fun truthy :: "json \<Rightarrow> bool" where
  "truthy JUndefined = False"
| "truthy JNull = False"
| "truthy (JBool b) = b"
| "truthy (JNum n) = (n \<noteq> 0)"
| "truthy (JStr s) = (s \<noteq> [])"
| "truthy (JTok t) = (t \<noteq> Malformed [])"
| "truthy (JObj fs) = True"

text \<open>
  Property access \<open>x.k\<close>: a missing property reads as \<open>undefined\<close>; reading a property
  of \<open>undefined\<close> or \<open>null\<close> throws a TypeError, which is \<open>None\<close> here.
\<close>

fun get_prop :: "json \<Rightarrow> string \<Rightarrow> json option" where
  "get_prop JUndefined k = None"
| "get_prop JNull k = None"
| "get_prop (JObj fs) k = (case map_of fs k of None \<Rightarrow> Some JUndefined | Some v \<Rightarrow> Some v)"
| "get_prop v k = Some JUndefined"

record http_response =
  status :: nat
  body :: json

definition role_json :: "role \<Rightarrow> json" where
  "role_json r = (case r of ADMIN \<Rightarrow> JStr ''ADMIN'' | USER \<Rightarrow> JStr ''USER'')"

section \<open>Authentication routes (routes/auth.js)\<close>

text \<open>
  The routes sign with a helper of their own: the payload is the user id alone, there is
  no issuer or audience, and the refresh secret is another variable.
\<close>

definition generateTokens :: "env \<Rightarrow> nat \<Rightarrow> nat \<Rightarrow> js_error + (token \<times> token)" where
  "generateTokens e now uid =
     (case jwt_sign \<lparr>userId = uid, email = None, role = None, name = None, tokenType = None\<rparr>
             (JWT_SECRET e)
             \<lparr>expiresIn = (case JWT_EXPIRES_IN e of None \<Rightarrow> 24 * 60 * 60 | Some n \<Rightarrow> n),
              issuer = None, audience = None\<rparr> now of
        Inl err \<Rightarrow> Inl err
      | Inr accessToken \<Rightarrow>
          (case jwt_sign \<lparr>userId = uid, email = None, role = None, name = None, tokenType = None\<rparr>
                  (REFRESH_TOKEN_SECRET e)
                  \<lparr>expiresIn = (case REFRESH_TOKEN_EXPIRES_IN e of
                                  None \<Rightarrow> 7 * 24 * 60 * 60 | Some n \<Rightarrow> n),
                   issuer = None, audience = None\<rparr> now of
             Inl err \<Rightarrow> Inl err
           | Inr refreshToken \<Rightarrow> Inr (accessToken, refreshToken)))"

definition error_response :: "nat \<Rightarrow> string \<Rightarrow> http_response" where
  "error_response st msg =
     \<lparr>status = st, body = JObj [(''success'', JBool False), (''error'', JStr msg)]\<rparr>"

text \<open>
  The body of \<open>POST /api/auth/register\<close>, reached once \<open>validateRegister\<close> has let the
  request through. \<open>hash\<close> is the password hashing of \<open>bcryptjs\<close>.
\<close>

definition register :: "(string \<Rightarrow> string) \<Rightarrow> env \<Rightarrow> auth_db \<Rightarrow> nat \<Rightarrow> string \<Rightarrow> string \<Rightarrow> string
    \<Rightarrow> http_response \<times> auth_db" where
  "register hash e db now nm em pw =
     (case find (\<lambda>u. u_email u = em) (users db) of
        Some existingUser \<Rightarrow> (error_response 400 ''El usuario ya existe con este email'', db)
      | None \<Rightarrow>
          let u = \<lparr>u_id = nextId db, u_name = nm, u_email = em, u_password = hash pw,
                   u_role = USER, u_isActive = True\<rparr>;
              db1 = db\<lparr>users := users db @ [u], nextId := Suc (nextId db)\<rparr>
          in (case generateTokens e now (u_id u) of
               Inl err \<Rightarrow> (error_response 500 ''Error interno del servidor'', db1)
             | Inr (accessToken, refreshToken) \<Rightarrow>
                 (case refreshToken_create db1 now refreshToken (u_id u)
                         (now + 7 * 24 * 60 * 60 * 1000) of
                    (None, db2) \<Rightarrow> (error_response 500 ''Error interno del servidor'', db2)
                  | (Some r, db2) \<Rightarrow>
                      (\<lparr>status = 201, body = JObj
                          [(''success'', JBool True),
                           (''message'', JStr ''Usuario registrado exitosamente''),
                           (''data'', JObj
                              [(''user'', JObj [(''id'', JNum (int (u_id u))),
                                                (''name'', JStr (u_name u)),
                                                (''email'', JStr (u_email u)),
                                                (''role'', role_json (u_role u))]),
                               (''accessToken'', JTok accessToken),
                               (''refreshToken'', JTok refreshToken)])]\<rparr>, db2))))"

text \<open>
  The body of \<open>POST /api/auth/login\<close>, reached once \<open>validateLogin\<close> has let the request
  through. \<open>compare\<close> is the password check of \<open>bcryptjs\<close>.
\<close>

definition login :: "(string \<Rightarrow> string \<Rightarrow> bool) \<Rightarrow> env \<Rightarrow> auth_db \<Rightarrow> nat \<Rightarrow> string \<Rightarrow> string
    \<Rightarrow> http_response \<times> auth_db" where
  "login compare e db now em pw =
     (case find (\<lambda>u. u_email u = em) (users db) of
        None \<Rightarrow> (error_response 401 ''Credenciales invalidas'', db)
      | Some u \<Rightarrow>
          if \<not> u_isActive u
            then (error_response 401 ''Cuenta desactivada. Contacta al administrador'', db)
          else if \<not> compare pw (u_password u)
            then (error_response 401 ''Credenciales invalidas'', db)
          else
            (case generateTokens e now (u_id u) of
               Inl err \<Rightarrow> (error_response 500 ''Error interno del servidor'', db)
             | Inr (accessToken, refreshToken) \<Rightarrow>
                 let db1 = db\<lparr>refreshTokens :=
                              filter (\<lambda>r. \<not> (rt_userId r = u_id u \<and> rt_expiresAt r < now))
                                (refreshTokens db)\<rparr>
                 in (case refreshToken_create db1 now refreshToken (u_id u)
                           (now + 7 * 24 * 60 * 60 * 1000) of
                      (None, db2) \<Rightarrow> (error_response 500 ''Error interno del servidor'', db2)
                    | (Some r, db2) \<Rightarrow>
                        (\<lparr>status = 200, body = JObj
                            [(''success'', JBool True),
                             (''message'', JStr ''Inicio de sesion exitoso''),
                             (''data'', JObj
                                [(''user'', JObj [(''id'', JNum (int (u_id u))),
                                                  (''name'', JStr (u_name u)),
                                                  (''email'', JStr (u_email u)),
                                                  (''role'', role_json (u_role u)),
                                                  (''isActive'', JBool (u_isActive u))]),
                                 (''accessToken'', JTok accessToken),
                                 (''refreshToken'', JTok refreshToken)])]\<rparr>, db2))))"

text \<open>
  \<open>POST /api/auth/refresh\<close>. The request body's \<open>refreshToken\<close> is any JSON value;
  only a string can be a token. Every throw inside the handler ends in its catch-all,
  which answers 401.
\<close>

definition refresh :: "env \<Rightarrow> auth_db \<Rightarrow> nat \<Rightarrow> json \<Rightarrow> http_response \<times> auth_db" where
  "refresh e db now refreshToken =
     (if \<not> truthy refreshToken then (error_response 401 ''Refresh token requerido'', db)
      else
        case (case refreshToken of
                JTok t \<Rightarrow> jwt_verify t (REFRESH_TOKEN_SECRET e) None None now
              | JStr s \<Rightarrow> jwt_verify (Malformed s) (REFRESH_TOKEN_SECRET e) None None now
              | _ \<Rightarrow> Inl (JsonWebTokenError ''jwt must be a string'')) of
          Inl err \<Rightarrow> (error_response 401 ''Refresh token invalido'', db)
        | Inr decoded \<Rightarrow>
            (case find (\<lambda>r. JTok (rt_token r) = refreshToken) (refreshTokens db) of
               None \<Rightarrow> (error_response 401 ''Refresh token invalido o expirado'', db)
             | Some storedToken \<Rightarrow>
                 if rt_expiresAt storedToken < now
                   then (error_response 401 ''Refresh token invalido o expirado'', db)
                 else
                   (case find (\<lambda>u. u_id u = userId (c_payload decoded)) (users db) of
                      None \<Rightarrow> (error_response 401 ''Usuario no encontrado o inactivo'', db)
                    | Some u \<Rightarrow>
                        if \<not> u_isActive u
                          then (error_response 401 ''Usuario no encontrado o inactivo'', db)
                        else
                          (case jwt_sign \<lparr>userId = u_id u, email = None, role = None,
                                           name = None, tokenType = None\<rparr>
                                  (JWT_SECRET e)
                                  \<lparr>expiresIn = (case JWT_EXPIRES_IN e of
                                                  None \<Rightarrow> 24 * 60 * 60 | Some n \<Rightarrow> n),
                                   issuer = None, audience = None\<rparr> now of
                             Inl err \<Rightarrow> (error_response 401 ''Refresh token invalido'', db)
                           | Inr newAccessToken \<Rightarrow>
                               (\<lparr>status = 200, body = JObj
                                   [(''success'', JBool True),
                                    (''message'', JStr ''Token renovado exitosamente''),
                                    (''data'', JObj
                                       [(''accessToken'', JTok newAccessToken),
                                        (''user'', JObj [(''id'', JNum (int (u_id u))),
                                                         (''name'', JStr (u_name u)),
                                                         (''email'', JStr (u_email u)),
                                                         (''role'', role_json (u_role u)),
                                                         (''isActive'', JBool (u_isActive u))])])]\<rparr>,
                                db)))))"

text \<open>
  The body of \<open>POST /api/auth/logout\<close>, reached once \<open>authenticate\<close> has set
  \<open>req.user\<close>; \<open>uid\<close> is that user's id.
\<close>

definition logout :: "auth_db \<Rightarrow> nat \<Rightarrow> json \<Rightarrow> http_response \<times> auth_db" where
  "logout db uid refreshToken =
     (\<lparr>status = 200, body = JObj [(''success'', JBool True),
                                   (''message'', JStr ''Sesion cerrada exitosamente'')]\<rparr>,
      if truthy refreshToken
        then db\<lparr>refreshTokens :=
                 filter (\<lambda>r. \<not> (JTok (rt_token r) = refreshToken \<and> rt_userId r = uid))
                   (refreshTokens db)\<rparr>
        else db\<lparr>refreshTokens := filter (\<lambda>r. rt_userId r \<noteq> uid) (refreshTokens db)\<rparr>)"


section \<open>API client (js/api.js)\<close>

text \<open>
  A header value is a literal string or the template \<open>`Bearer ${token}`\<close>. \<open>fetch\<close>
  either rejects or resolves to a response, of which the client reads the status and the
  parsed JSON body (\<open>None\<close> when \<open>response.json()\<close> rejects).
\<close>

datatype header_value = Lit string | Bearer json

record fetch_config =
  cfg_method :: "string option"
  cfg_headers :: "(string \<times> header_value) list"
  cfg_body :: "json option"

record request_options =
  opt_method :: "string option"
  opt_headers :: "(string \<times> header_value) list option"
  opt_body :: "json option"

datatype fetch_result = Rejected | Response nat "json option"

text \<open>
  The network is a function of a state \<open>'w\<close> that the client cannot see: what it answers
  may depend on everything sent before. Each call of \<open>fetch\<close> is logged with the place
  in \<open>request\<close> it was made from.
\<close>

datatype fetch_event =
    Original string fetch_config | Renewal string fetch_config | Retry string fetch_config

record api_client =
  baseURL :: string
  accessToken :: json
  refreshToken :: json
  localStorage :: "string \<rightharpoonup> json"

text \<open>
  \<open>localStorage.setItem(k, v)\<close> stores the string form of \<open>v\<close>: \<open>undefined\<close> is kept
  as the string \<open>undefined\<close>. A number here is an integer, written in decimal.
\<close>

function nat_digits :: "nat \<Rightarrow> string" where
  "nat_digits n =
     (if n < 10 then [char_of (48 + n)]
      else nat_digits (n div 10) @ [char_of (48 + n mod 10)])"
  by pat_completeness auto
termination
  by (relation "measure (\<lambda>n. n)") auto

declare nat_digits.simps [simp del]

fun js_String :: "json \<Rightarrow> json" where
  "js_String JUndefined = JStr ''undefined''"
| "js_String JNull = JStr ''null''"
| "js_String (JBool b) = JStr (if b then ''true'' else ''false'')"
| "js_String (JNum n) = JStr (if n < 0 then CHR ''-'' # nat_digits (nat (- n)) else nat_digits (nat n))"
| "js_String (JStr s) = JStr s"
| "js_String (JTok t) = JTok t"
| "js_String (JObj fs) = JStr ''[object Object]''"

definition setTokens :: "api_client \<Rightarrow> json \<Rightarrow> json \<Rightarrow> api_client" where
  "setTokens c a r =
     c\<lparr>accessToken := a, refreshToken := r,
       localStorage := (localStorage c)(''accessToken'' \<mapsto> js_String a,
                                        ''refreshToken'' \<mapsto> js_String r)\<rparr>"

definition clearTokens :: "api_client \<Rightarrow> api_client" where
  "clearTokens c =
     c\<lparr>accessToken := JNull, refreshToken := JNull,
       localStorage := (localStorage c)(''accessToken'' := None, ''refreshToken'' := None)\<rparr>"

definition isAuthenticated :: "api_client \<Rightarrow> bool" where
  "isAuthenticated c = truthy (accessToken c)"

definition renewToken :: "('w \<Rightarrow> string \<Rightarrow> fetch_config \<Rightarrow> fetch_result \<times> 'w) \<Rightarrow> api_client \<Rightarrow> 'w
    \<Rightarrow> bool \<times> api_client \<times> 'w \<times> fetch_event list" where
  "renewToken fetch c w =
     (let url = baseURL c @ ''/auth/refresh'';
          config = \<lparr>cfg_method = Some ''POST'',
                    cfg_headers = [(''Content-Type'', Lit ''application/json'')],
                    cfg_body = Some (JObj [(''refreshToken'', refreshToken c)])\<rparr>
      in (case fetch w url config of
            (Rejected, w1) \<Rightarrow> (False, clearTokens c, w1, [Renewal url config])
          | (Response st js, w1) \<Rightarrow>
              if 200 \<le> st \<and> st \<le> 299 then
                (case js of
                   None \<Rightarrow> (False, clearTokens c, w1, [Renewal url config])
                 | Some data \<Rightarrow>
                     (case get_prop data ''data'' of
                        None \<Rightarrow> (False, clearTokens c, w1, [Renewal url config])
                      | Some d \<Rightarrow>
                          (case (get_prop d ''accessToken'', get_prop d ''refreshToken'') of
                             (Some a, Some r) \<Rightarrow> (True, setTokens c a r, w1, [Renewal url config])
                           | _ \<Rightarrow> (False, clearTokens c, w1, [Renewal url config]))))
              else (False, clearTokens c, w1, [Renewal url config])))"

definition header_set :: "(string \<times> header_value) list \<Rightarrow> string \<Rightarrow> bool" where
  "header_set hs k =
     (case map_of hs k of None \<Rightarrow> False | Some (Lit v) \<Rightarrow> v \<noteq> [] | Some (Bearer t) \<Rightarrow> True)"

definition set_header :: "(string \<times> header_value) list \<Rightarrow> string \<Rightarrow> header_value
    \<Rightarrow> (string \<times> header_value) list" where
  "set_header hs k v = (k, v) # filter (\<lambda>h. fst h \<noteq> k) hs"

text \<open>
  The configuration \<open>request\<close> builds: \<open>...options\<close> is spread after \<open>headers\<close>, so the
  caller's \<open>headers\<close>, when given, replace the default ones; then the bearer header is
  added unless the caller set one.
\<close>

definition request_config :: "api_client \<Rightarrow> request_options \<Rightarrow> fetch_config" where
  "request_config c options =
     (let hs = (case opt_headers options of
                  None \<Rightarrow> [(''Content-Type'', Lit ''application/json'')]
                | Some h \<Rightarrow> h)
      in \<lparr>cfg_method = opt_method options,
          cfg_headers = (if truthy (accessToken c) \<and> \<not> header_set hs ''Authorization''
                         then set_header hs ''Authorization'' (Bearer (accessToken c))
                         else hs),
          cfg_body = opt_body options\<rparr>)"

datatype request_outcome = Threw | Returned nat "json option"

definition request :: "('w \<Rightarrow> string \<Rightarrow> fetch_config \<Rightarrow> fetch_result \<times> 'w) \<Rightarrow> api_client \<Rightarrow> 'w
    \<Rightarrow> string \<Rightarrow> request_options \<Rightarrow> request_outcome \<times> api_client \<times> 'w \<times> fetch_event list" where
  "request fetch c w endpoint options =
     (let url = baseURL c @ endpoint;
          config = request_config c options
      in (case fetch w url config of
            (Rejected, w1) \<Rightarrow> (Threw, c, w1, [Original url config])
          | (Response st js, w1) \<Rightarrow>
              if st = 401 \<and> truthy (refreshToken c) then
                (case renewToken fetch c w1 of
                   (renewed, c2, w2, ev) \<Rightarrow>
                     if renewed then
                       (let config2 = config\<lparr>cfg_headers :=
                              set_header (cfg_headers config) ''Authorization''
                                (Bearer (accessToken c2))\<rparr>
                        in (case fetch w2 url config2 of
                              (Rejected, w3) \<Rightarrow>
                                (Threw, c2, w3, Original url config # ev @ [Retry url config2])
                            | (Response st2 js2, w3) \<Rightarrow>
                                (Returned st2 js2, c2, w3,
                                 Original url config # ev @ [Retry url config2])))
                     else (Returned st js, c2, w2, Original url config # ev))
              else (Returned st js, c, w1, [Original url config])))"

text \<open>Which call site an entry of the log comes from.\<close>

fun is_original :: "fetch_event \<Rightarrow> bool" where
  "is_original (Original u cfg) = True"
| "is_original ev = False"

fun is_renewal :: "fetch_event \<Rightarrow> bool" where
  "is_renewal (Renewal u cfg) = True"
| "is_renewal ev = False"

fun is_retry :: "fetch_event \<Rightarrow> bool" where
  "is_retry (Retry u cfg) = True"
| "is_retry ev = False"

section \<open>Validation helpers (middleware/validators.js)\<close>

text \<open>
  \<open>.trim()\<close> strips the white space at both ends, every character that JavaScript
  counts as white space. A character of a string is a code unit below 256, and the white space
  among those is tab, line feed, vertical tab, form feed, carriage return, space and the
  no-break space U+00A0. A failed rule is reported with its field and message;
  \<open>handleValidationErrors\<close> answers 400 with all of them.
\<close>

definition is_space :: "char \<Rightarrow> bool" where
  "is_space ch =
     (ch \<in> set [CHR '' '', CHR 0x09, CHR 0x0A, CHR 0x0B, CHR 0x0C, CHR 0x0D, CHR 0xA0])"

definition trim :: "string \<Rightarrow> string" where
  "trim s = rev (dropWhile is_space (rev (dropWhile is_space s)))"

record validation_error =
  ve_field :: string
  ve_message :: string

text \<open>
  What a handler chain answers: the 400 of \<open>handleValidationErrors\<close> with its details,
  another error status with its message, or a success status with its data.
\<close>

datatype 'a reply = Invalid "validation_error list" | Fail nat string | Done nat 'a

fun reply_status :: "'a reply \<Rightarrow> nat" where
  "reply_status (Invalid details) = 400"
| "reply_status (Fail st msg) = st"
| "reply_status (Done st x) = st"

text \<open>
  The query string of a list endpoint. \<open>page\<close> and \<open>limit\<close> are held as the integers
  their strings denote.
\<close>

record list_query =
  q_page :: "int option"
  q_limit :: "int option"
  q_search :: "string option"
  q_featured :: "string option"

definition validatePagination :: "list_query \<Rightarrow> validation_error list" where
  "validatePagination q =
     (case q_page q of
        None \<Rightarrow> []
      | Some p \<Rightarrow> if 1 \<le> p then []
                  else [\<lparr>ve_field = ''page'',
                         ve_message = ''La pagina debe ser un numero entero positivo''\<rparr>])
     @ (case q_limit q of
          None \<Rightarrow> []
        | Some l \<Rightarrow> if 1 \<le> l \<and> l \<le> 100 then []
                    else [\<lparr>ve_field = ''limit'',
                           ve_message = ''El limite debe ser un numero entre 1 y 100''\<rparr>])
     @ (case q_search q of
          None \<Rightarrow> []
        | Some s \<Rightarrow> if length (trim s) \<le> 100 then []
                    else [\<lparr>ve_field = ''search'',
                           ve_message = ''La busqueda no puede exceder 100 caracteres''\<rparr>])"

text \<open>\<open>parseInt(x) || d\<close> and \<open>req.query.search || ''\<close>, read after the sanitizers ran.\<close>

definition int_or :: "int option \<Rightarrow> int \<Rightarrow> int" where
  "int_or x d = (case x of None \<Rightarrow> d | Some n \<Rightarrow> if n = 0 then d else n)"

definition search_of :: "list_query \<Rightarrow> string" where
  "search_of q = (case q_search q of None \<Rightarrow> [] | Some s \<Rightarrow> trim s)"

section \<open>Project routes (routes/projects.js)\<close>

record project =
  p_id :: nat
  p_title :: string
  p_description :: string
  p_videoUrl :: "string option"
  p_videoTitle :: "string option"
  p_repositoryUrl :: "string option"
  p_technologies :: "string list"
  p_isFeatured :: bool
  p_isActive :: bool
  p_order :: int
  p_authorId :: nat
  p_createdAt :: nat
  p_updatedAt :: nat

record 'a page =
  pg_items :: "'a list"
  pg_page :: int
  pg_limit :: int
  pg_total :: nat
  pg_totalPages :: int
  pg_hasNext :: bool
  pg_hasPrev :: bool

text \<open>\<open>contains\<close> with \<open>mode: 'insensitive'\<close>: a substring test that ignores letter case.\<close>

definition lower :: "char \<Rightarrow> char" where
  "lower ch = (if 65 \<le> (of_char ch :: nat) \<and> (of_char ch :: nat) \<le> 90
               then char_of ((of_char ch :: nat) + 32) else ch)"

fun is_infix :: "'a list \<Rightarrow> 'a list \<Rightarrow> bool" where
  "is_infix xs [] = (xs = [])"
| "is_infix xs (y # ys) = (take (length xs) (y # ys) = xs \<or> is_infix xs ys)"

definition contains_insensitive :: "string \<Rightarrow> string \<Rightarrow> bool" where
  "contains_insensitive field s = is_infix (map lower s) (map lower field)"

text \<open>
  The orderings, each a chain of stable sorts from the least significant key to the most
  significant one.
\<close>

definition orderProjects :: "project list \<Rightarrow> project list" where
  "orderProjects ps =
     sort_key (\<lambda>p. if p_isFeatured p then (0::nat) else 1)
       (sort_key p_order (sort_key (\<lambda>p. - int (p_createdAt p)) ps))"

definition orderFeatured :: "project list \<Rightarrow> project list" where
  "orderFeatured ps = sort_key p_order (sort_key (\<lambda>p. - int (p_createdAt p)) ps)"

definition paginate :: "'a list \<Rightarrow> int \<Rightarrow> int \<Rightarrow> 'a page" where
  "paginate xs pg lim =
     (let total = length xs;
          totalPages = (if lim = 0 then 0 else - ((- int total) div lim))
      in \<lparr>pg_items = take (nat lim) (drop (nat ((pg - 1) * lim)) xs),
          pg_page = pg, pg_limit = lim, pg_total = total, pg_totalPages = totalPages,
          pg_hasNext = (pg < totalPages), pg_hasPrev = (1 < pg)\<rparr>)"

definition publicWhere :: "list_query \<Rightarrow> project \<Rightarrow> bool" where
  "publicWhere q p =
     (p_isActive p
      \<and> (q_featured q = Some ''true'' \<longrightarrow> p_isFeatured p)
      \<and> (search_of q \<noteq> [] \<longrightarrow>
           contains_insensitive (p_title p) (search_of q)
           \<or> contains_insensitive (p_description p) (search_of q)
           \<or> search_of q \<in> set (p_technologies p)))"

definition adminWhere :: "list_query \<Rightarrow> project \<Rightarrow> bool" where
  "adminWhere q p =
     (search_of q \<noteq> [] \<longrightarrow>
        contains_insensitive (p_title p) (search_of q)
        \<or> contains_insensitive (p_description p) (search_of q))"

text \<open>\<open>GET /api/projects\<close>.\<close>

definition getProjects :: "project list \<Rightarrow> list_query \<Rightarrow> project page reply" where
  "getProjects ps q =
     (case validatePagination q of
        e # es \<Rightarrow> Invalid (e # es)
      | [] \<Rightarrow> Done 200 (paginate (orderProjects (filter (publicWhere q) ps))
                         (int_or (q_page q) 1) (int_or (q_limit q) 10)))"

text \<open>\<open>GET /api/projects/featured\<close>.\<close>

definition getFeatured :: "project list \<Rightarrow> project list reply" where
  "getFeatured ps = Done 200 (orderFeatured (filter (\<lambda>p. p_isActive p \<and> p_isFeatured p) ps))"

text \<open>
  \<open>GET /api/projects/admin/all\<close>, for a request that \<open>authenticate\<close> and \<open>requireAdmin\<close>
  have let through.
\<close>

definition getAllProjectsAdmin :: "project list \<Rightarrow> list_query \<Rightarrow> project page reply" where
  "getAllProjectsAdmin ps q =
     (case validatePagination q of
        e # es \<Rightarrow> Invalid (e # es)
      | [] \<Rightarrow> Done 200 (paginate (orderProjects (filter (adminWhere q) ps))
                         (int_or (q_page q) 1) (int_or (q_limit q) 10)))"

text \<open>
  \<open>DELETE /api/projects/:id\<close>, for a request that \<open>authenticate\<close>, \<open>requireAdmin\<close> and
  \<open>validateId\<close> have let through.
\<close>

definition deleteProject :: "project list \<Rightarrow> nat \<Rightarrow> nat \<Rightarrow> unit reply \<times> project list" where
  "deleteProject ps now ident =
     (case find (\<lambda>p. p_id p = ident) ps of
        None \<Rightarrow> (Fail 404 ''Proyecto no encontrado'', ps)
      | Some existingProject \<Rightarrow>
          (Done 200 (),
           map (\<lambda>p. if p_id p = ident then p\<lparr>p_isActive := False, p_updatedAt := now\<rparr> else p) ps))"

section \<open>Contact routes (routes/contacts.js)\<close>

record contact =
  ct_id :: nat
  ct_name :: string
  ct_email :: string
  ct_subject :: "string option"
  ct_message :: string
  ct_phone :: "string option"
  ct_status :: string
  ct_adminNotes :: "string option"
  ct_respondedAt :: "nat option"
  ct_createdAt :: nat
  ct_updatedAt :: nat

record contacts_db =
  contacts :: "contact list"
  ct_nextId :: nat

text \<open>A request body's fields; \<open>None\<close> is a field that is not there.\<close>

record contact_body =
  b_name :: "string option"
  b_email :: "string option"
  b_subject :: "string option"
  b_message :: "string option"
  b_phone :: "string option"

definition str_of :: "string option \<Rightarrow> string" where
  "str_of v = (case v of None \<Rightarrow> [] | Some s \<Rightarrow> s)"

text \<open>
  \<open>validateContact\<close>. A rule that is not optional reads a missing field as the empty
  string. \<open>isEmail\<close> is the e-mail test of the validator package.
\<close>

definition validateContact :: "(string \<Rightarrow> bool) \<Rightarrow> contact_body \<Rightarrow> validation_error list" where
  "validateContact isEmail b =
     (if 2 \<le> length (trim (str_of (b_name b))) \<and> length (trim (str_of (b_name b))) \<le> 100 then []
      else [\<lparr>ve_field = ''name'',
             ve_message = ''El nombre debe tener entre 2 y 100 caracteres''\<rparr>])
     @ (if isEmail (str_of (b_email b)) then []
        else [\<lparr>ve_field = ''email'', ve_message = ''Debe proporcionar un email valido''\<rparr>])
     @ (case b_subject b of
          None \<Rightarrow> []
        | Some s \<Rightarrow> if length (trim s) \<le> 200 then []
                    else [\<lparr>ve_field = ''subject'',
                           ve_message = ''El asunto no puede exceder 200 caracteres''\<rparr>])
     @ (if 10 \<le> length (trim (str_of (b_message b)))
            \<and> length (trim (str_of (b_message b))) \<le> 2000 then []
        else [\<lparr>ve_field = ''message'',
               ve_message = ''El mensaje debe tener entre 10 y 2000 caracteres''\<rparr>])"

text \<open>
  \<open>POST /api/contacts\<close>. The handler stores the sanitized fields: trimmed name, subject
  and message, and the e-mail as the validator package's \<open>normalizeEmail\<close> rewrites it.
\<close>

definition createContact :: "(string \<Rightarrow> bool) \<Rightarrow> (string \<Rightarrow> string) \<Rightarrow> contacts_db \<Rightarrow> nat \<Rightarrow> contact_body
    \<Rightarrow> contact reply \<times> contacts_db" where
  "createContact isEmail normalizeEmail db now b =
     (case validateContact isEmail b of
        e # es \<Rightarrow> (Invalid (e # es), db)
      | [] \<Rightarrow>
          (let c = \<lparr>ct_id = ct_nextId db, ct_name = trim (str_of (b_name b)),
                    ct_email = normalizeEmail (str_of (b_email b)),
                    ct_subject = map_option trim (b_subject b),
                    ct_message = trim (str_of (b_message b)), ct_phone = b_phone b,
                    ct_status = ''PENDING'', ct_adminNotes = None, ct_respondedAt = None,
                    ct_createdAt = now, ct_updatedAt = now\<rparr>
           in (Done 201 c, db\<lparr>contacts := contacts db @ [c], ct_nextId := Suc (ct_nextId db)\<rparr>)))"

record update_body =
  ub_status :: "string option"
  ub_adminNotes :: "string option"
  ub_isRead :: "string option"

definition validateUpdateContact :: "update_body \<Rightarrow> validation_error list" where
  "validateUpdateContact b =
     (case ub_status b of
        None \<Rightarrow> []
      | Some s \<Rightarrow> if s \<in> set [''PENDING'', ''IN_PROGRESS'', ''RESOLVED'', ''CLOSED''] then []
                  else [\<lparr>ve_field = ''status'', ve_message = ''Estado invalido''\<rparr>])
     @ (case ub_isRead b of
          None \<Rightarrow> []
        | Some s \<Rightarrow> if s \<in> set [''true'', ''false'', ''1'', ''0''] then []
                    else [\<lparr>ve_field = ''isRead'',
                           ve_message = ''isRead debe ser un valor booleano''\<rparr>])"

text \<open>The row \<open>findUnique({ where: { id } })\<close> reads, and \<open>update\<close> on that row.\<close>

definition findContact :: "contacts_db \<Rightarrow> nat \<Rightarrow> contact option" where
  "findContact db ident = find (\<lambda>c. ct_id c = ident) (contacts db)"

definition updateContact :: "contacts_db \<Rightarrow> nat \<Rightarrow> (contact \<Rightarrow> contact) \<Rightarrow> contacts_db" where
  "updateContact db ident f =
     db\<lparr>contacts := map (\<lambda>c. if ct_id c = ident then f c else c) (contacts db)\<rparr>"

text \<open>
  \<open>PUT /api/contacts/:id\<close>, for a request that \<open>authenticate\<close> and \<open>requireAdmin\<close> have
  let through; \<open>validateUpdateContact\<close> runs first.
\<close>

definition putContact :: "contacts_db \<Rightarrow> nat \<Rightarrow> nat \<Rightarrow> update_body \<Rightarrow> contact reply \<times> contacts_db" where
  "putContact db now ident b =
     (case validateUpdateContact b of
        e # es \<Rightarrow> (Invalid (e # es), db)
      | [] \<Rightarrow>
          (case findContact db ident of
             None \<Rightarrow> (Fail 404 ''Mensaje de contacto no encontrado'', db)
           | Some existingContact \<Rightarrow>
               (let withStatus = (\<lambda>c. case ub_status b of
                        None \<Rightarrow> c
                      | Some s \<Rightarrow>
                          if s = [] then c
                          else if s = ''RESPONDED''
                            then c\<lparr>ct_status := s, ct_respondedAt := Some now\<rparr>
                          else c\<lparr>ct_status := s\<rparr>);
                    withNotes = (\<lambda>c. case ub_adminNotes b of
                        None \<Rightarrow> c
                      | Some n \<Rightarrow> c\<lparr>ct_adminNotes := Some n\<rparr>);
                    updateData = (\<lambda>c. withNotes (withStatus (c\<lparr>ct_updatedAt := now\<rparr>)))
                in (Done 200 (updateData existingContact), updateContact db ident updateData))))"

text \<open>\<open>PATCH /api/contacts/:id/status\<close>, behind the same two guards and \<open>validateId\<close>.\<close>

definition patchContactStatus :: "contacts_db \<Rightarrow> nat \<Rightarrow> nat \<Rightarrow> string option
    \<Rightarrow> contact reply \<times> contacts_db" where
  "patchContactStatus db now ident st =
     (if str_of st = []
         \<or> str_of st \<notin> set [''PENDING'', ''IN_PROGRESS'', ''RESPONDED'', ''ARCHIVED'']
        then (Fail 400 ''Estado invalido. Debe ser: PENDING, IN_PROGRESS, RESPONDED, o ARCHIVED'', db)
      else
        (case findContact db ident of
           None \<Rightarrow> (Fail 404 ''Mensaje de contacto no encontrado'', db)
         | Some existing \<Rightarrow>
             (let updateData = (\<lambda>c.
                    if str_of st = ''RESPONDED'' \<and> ct_status existing \<noteq> ''RESPONDED''
                      then c\<lparr>ct_status := str_of st, ct_updatedAt := now,
                             ct_respondedAt := Some now\<rparr>
                    else c\<lparr>ct_status := str_of st, ct_updatedAt := now\<rparr>)
              in (Done 200 (updateData existing), updateContact db ident updateData))))"

text \<open>
  \<open>POST /api/contacts/bulk-update\<close>, behind the same two guards. \<open>contactIds\<close> is
  \<open>None\<close> when the field is missing or is no array. The data is the number of rows
  that \<open>updateMany\<close> touched.
\<close>

definition bulkUpdateContacts :: "contacts_db \<Rightarrow> nat \<Rightarrow> nat list option \<Rightarrow> string option
    \<Rightarrow> string option \<Rightarrow> nat reply \<times> contacts_db" where
  "bulkUpdateContacts db now contactIds st adminNotes =
     (case contactIds of
        None \<Rightarrow> (Fail 400 ''Se requiere un array de IDs de contactos'', db)
      | Some ids \<Rightarrow>
          if ids = [] then (Fail 400 ''Se requiere un array de IDs de contactos'', db)
          else if str_of st = []
                 \<or> str_of st \<notin> set [''PENDING'', ''IN_PROGRESS'', ''RESPONDED'', ''ARCHIVED'']
            then (Fail 400 ''Estado invalido'', db)
          else
            (let withResponded = (\<lambda>c. if str_of st = ''RESPONDED''
                                        then c\<lparr>ct_respondedAt := Some now\<rparr> else c);
                 withNotes = (\<lambda>c. if str_of adminNotes \<noteq> []
                                    then c\<lparr>ct_adminNotes := adminNotes\<rparr> else c);
                 updateData = (\<lambda>c. withNotes (withResponded
                                       (c\<lparr>ct_status := str_of st, ct_updatedAt := now\<rparr>)))
             in (Done 200 (length (filter (\<lambda>c. ct_id c \<in> set ids) (contacts db))),
                 db\<lparr>contacts := map (\<lambda>c. if ct_id c \<in> set ids then updateData c else c)
                                   (contacts db)\<rparr>)))"

text \<open>\<open>DELETE /api/contacts/:id\<close>, behind the guards: the row is removed.\<close>

definition deleteContact :: "contacts_db \<Rightarrow> nat \<Rightarrow> unit reply \<times> contacts_db" where
  "deleteContact db ident =
     (case findContact db ident of
        None \<Rightarrow> (Fail 404 ''Mensaje de contacto no encontrado'', db)
      | Some existingContact \<Rightarrow>
          (Done 200 (), db\<lparr>contacts := filter (\<lambda>c. ct_id c \<noteq> ident) (contacts db)\<rparr>))"

text \<open>
  The requests that write to the contact table, and the router's dispatch of one of them
  to its handler; the administrator routes are taken past their guards.
\<close>

datatype contact_request =
    PostContact contact_body
  | PutContact nat update_body
  | PatchStatus nat "string option"
  | BulkUpdate "nat list option" "string option" "string option"
  | DeleteContact nat

definition contact_route :: "(string \<Rightarrow> bool) \<Rightarrow> (string \<Rightarrow> string) \<Rightarrow> contacts_db \<Rightarrow> nat
    \<Rightarrow> contact_request \<Rightarrow> nat \<times> contacts_db" where
  "contact_route isEmail normalizeEmail db now req =
     (case req of
        PostContact b \<Rightarrow>
          (case createContact isEmail normalizeEmail db now b of (r, db2) \<Rightarrow> (reply_status r, db2))
      | PutContact ident b \<Rightarrow>
          (case putContact db now ident b of (r, db2) \<Rightarrow> (reply_status r, db2))
      | PatchStatus ident st \<Rightarrow>
          (case patchContactStatus db now ident st of (r, db2) \<Rightarrow> (reply_status r, db2))
      | BulkUpdate ids st notes \<Rightarrow>
          (case bulkUpdateContacts db now ids st notes of (r, db2) \<Rightarrow> (reply_status r, db2))
      | DeleteContact ident \<Rightarrow>
          (case deleteContact db ident of (r, db2) \<Rightarrow> (reply_status r, db2)))"

text \<open>The \<open>respondedAt\<close> of the stored contact with a given id, if there is one.\<close>

definition respondedAt_of :: "contacts_db \<Rightarrow> nat \<Rightarrow> nat option option" where
  "respondedAt_of db ident = map_option ct_respondedAt (findContact db ident)"

section \<open>Sweeping expired refresh tokens\<close>

lemma length_filter_split:
  "length (filter P xs) + length (filter (\<lambda>x. \<not> P x) xs) = length xs"
  by (induction xs) auto

text \<open>
  C6. \<open>cleanExpiredTokens\<close> removes the records whose expiry is earlier than the current
  time, all of them and nothing else (the survivors keep their order and the other
  table is untouched), and returns how many it removed. Run again at the same instant on
  the store it left, it removes nothing, returns 0 and leaves the store as it is.
\<close>

theorem cleanExpiredTokens_exact_idempotent:
  "set (refreshTokens (snd (cleanExpiredTokens db now)))
     = {r. r \<in> set (refreshTokens db) \<and> \<not> rt_expiresAt r < now}
   \<and> refreshTokens (snd (cleanExpiredTokens db now))
     = filter (\<lambda>r. now \<le> rt_expiresAt r) (refreshTokens db)
   \<and> users (snd (cleanExpiredTokens db now)) = users db
   \<and> fst (cleanExpiredTokens db now)
     = card {i. i < length (refreshTokens db) \<and> rt_expiresAt (refreshTokens db ! i) < now}
   \<and> fst (cleanExpiredTokens db now) + length (refreshTokens (snd (cleanExpiredTokens db now)))
     = length (refreshTokens db)
   \<and> cleanExpiredTokens (snd (cleanExpiredTokens db now)) now
     = (0, snd (cleanExpiredTokens db now))"
proof -
  let ?xs = "refreshTokens db"
  have a: "filter (\<lambda>r. \<not> rt_expiresAt r < now) ?xs = filter (\<lambda>r. now \<le> rt_expiresAt r) ?xs"
    by (rule filter_cong) auto
  have b: "filter (\<lambda>r. rt_expiresAt r < now) (filter (\<lambda>r. \<not> rt_expiresAt r < now) ?xs) = []"
    by (simp add: filter_empty_conv)
  have c: "filter (\<lambda>r. \<not> rt_expiresAt r < now) (filter (\<lambda>r. \<not> rt_expiresAt r < now) ?xs)
             = filter (\<lambda>r. \<not> rt_expiresAt r < now) ?xs"
    by simp
  have d: "length (filter (\<lambda>r. rt_expiresAt r < now) ?xs)
             = card {i. i < length ?xs \<and> rt_expiresAt (?xs ! i) < now}"
    by (rule length_filter_conv_card)
  show ?thesis
    using length_filter_split [of "\<lambda>r. rt_expiresAt r < now" ?xs] a b c d
    by (auto simp: cleanExpiredTokens_def)
qed

theorem cleanExpiredTokens_exact_idempotent_witness:
  "cleanExpiredTokens
     \<lparr>users = [], refreshTokens =
        [\<lparr>rt_id = 0, rt_token = Malformed ''a'', rt_userId = 1, rt_expiresAt = 5, rt_createdAt = 0\<rparr>,
         \<lparr>rt_id = 1, rt_token = Malformed ''b'', rt_userId = 1, rt_expiresAt = 20, rt_createdAt = 1\<rparr>],
      nextId = 2\<rparr> 10
   = (1, \<lparr>users = [], refreshTokens =
        [\<lparr>rt_id = 1, rt_token = Malformed ''b'', rt_userId = 1, rt_expiresAt = 20, rt_createdAt = 1\<rparr>],
      nextId = 2\<rparr>)
   \<and> cleanExpiredTokens
     \<lparr>users = [], refreshTokens =
        [\<lparr>rt_id = 1, rt_token = Malformed ''b'', rt_userId = 1, rt_expiresAt = 20, rt_createdAt = 1\<rparr>],
      nextId = 2\<rparr> 10
   = (0, \<lparr>users = [], refreshTokens =
        [\<lparr>rt_id = 1, rt_token = Malformed ''b'', rt_userId = 1, rt_expiresAt = 20, rt_createdAt = 1\<rparr>],
      nextId = 2\<rparr>)"
  using cleanExpiredTokens_exact_idempotent
    [of "\<lparr>users = [], refreshTokens =
        [\<lparr>rt_id = 0, rt_token = Malformed ''a'', rt_userId = 1, rt_expiresAt = 5, rt_createdAt = 0\<rparr>,
         \<lparr>rt_id = 1, rt_token = Malformed ''b'', rt_userId = 1, rt_expiresAt = 20, rt_createdAt = 1\<rparr>],
      nextId = 2\<rparr>" 10]
  by (simp add: cleanExpiredTokens_def)

section \<open>Verifying tokens\<close>

text \<open>
  C3, as the code has it. With a signing secret configured, \<open>generateAccessToken\<close>
  returns a token, and \<open>verifyAccessToken\<close> on it returns the claims it was signed with
  (the account's id, e-mail, role and name) at every instant before the expiry; from the
  expiry on it fails, with the one error the verifier has for every failure.
\<close>

theorem access_token_round_trip:
  assumes "JWT_SECRET e = Some k" and "k \<noteq> []"
  shows "\<exists>tok. generateAccessToken e t0 A = Inr tok
         \<and> verifyAccessToken e now tok =
             (if now div 1000 < t0 div 1000 + (case JWT_EXPIRES_IN e of None \<Rightarrow> 15 * 60 | Some n \<Rightarrow> n)
              then Inr \<lparr>c_payload = \<lparr>userId = u_id A, email = Some (u_email A),
                                     role = Some (u_role A), name = Some (u_name A),
                                     tokenType = None\<rparr>,
                        iat = t0 div 1000,
                        exp = t0 div 1000 + (case JWT_EXPIRES_IN e of None \<Rightarrow> 15 * 60 | Some n \<Rightarrow> n),
                        iss = Some ''joseluiscastro-portfolio'', aud = Some ''portfolio-users''\<rparr>
              else Inl (Error ''Token de acceso invalido o expirado''))"
  using assms
  by (simp add: generateAccessToken_def verifyAccessToken_def jwt_sign_def jwt_verify_def)

theorem access_token_round_trip_witness:
  "JWT_SECRET \<lparr>JWT_SECRET = Some ''k-access'', JWT_REFRESH_SECRET = Some ''k-refresh'',
       REFRESH_TOKEN_SECRET = Some ''k-route'', JWT_EXPIRES_IN = None,
       JWT_REFRESH_EXPIRES_IN = None, REFRESH_TOKEN_EXPIRES_IN = None\<rparr> = Some ''k-access''
   \<and> ''k-access'' \<noteq> []
   \<and> (\<exists>tok. generateAccessToken
          \<lparr>JWT_SECRET = Some ''k-access'', JWT_REFRESH_SECRET = Some ''k-refresh'',
           REFRESH_TOKEN_SECRET = Some ''k-route'', JWT_EXPIRES_IN = None,
           JWT_REFRESH_EXPIRES_IN = None, REFRESH_TOKEN_EXPIRES_IN = None\<rparr> 0
          \<lparr>u_id = 1, u_name = ''Ana'', u_email = ''ana@x.com'', u_password = ''h'',
           u_role = USER, u_isActive = True\<rparr> = Inr tok
        \<and> verifyAccessToken
          \<lparr>JWT_SECRET = Some ''k-access'', JWT_REFRESH_SECRET = Some ''k-refresh'',
           REFRESH_TOKEN_SECRET = Some ''k-route'', JWT_EXPIRES_IN = None,
           JWT_REFRESH_EXPIRES_IN = None, REFRESH_TOKEN_EXPIRES_IN = None\<rparr> 899999 tok
          = Inr \<lparr>c_payload = \<lparr>userId = 1, email = Some ''ana@x.com'', role = Some USER,
                               name = Some ''Ana'', tokenType = None\<rparr>,
                  iat = 0, exp = 900, iss = Some ''joseluiscastro-portfolio'',
                  aud = Some ''portfolio-users''\<rparr>)"
  using access_token_round_trip
    [of "\<lparr>JWT_SECRET = Some ''k-access'', JWT_REFRESH_SECRET = Some ''k-refresh'',
           REFRESH_TOKEN_SECRET = Some ''k-route'', JWT_EXPIRES_IN = None,
           JWT_REFRESH_EXPIRES_IN = None, REFRESH_TOKEN_EXPIRES_IN = None\<rparr>" "''k-access''" 0
        "\<lparr>u_id = 1, u_name = ''Ana'', u_email = ''ana@x.com'', u_password = ''h'',
           u_role = USER, u_isActive = True\<rparr>" 899999]
  by simp

text \<open>
  The same access token verified at its expiry, 15 minutes after it was issued: the
  package reports an expired token, and the verifier throws its own error, whose name is
  not that of an expired token.
\<close>

theorem expired_access_token_counterexample:
  "generateAccessToken
     \<lparr>JWT_SECRET = Some ''k-access'', JWT_REFRESH_SECRET = Some ''k-refresh'',
      REFRESH_TOKEN_SECRET = Some ''k-route'', JWT_EXPIRES_IN = None,
      JWT_REFRESH_EXPIRES_IN = None, REFRESH_TOKEN_EXPIRES_IN = None\<rparr> 0
     \<lparr>u_id = 1, u_name = ''Ana'', u_email = ''ana@x.com'', u_password = ''h'',
      u_role = USER, u_isActive = True\<rparr>
   = Inr (Signed ''k-access''
       \<lparr>c_payload = \<lparr>userId = 1, email = Some ''ana@x.com'', role = Some USER,
                      name = Some ''Ana'', tokenType = None\<rparr>,
        iat = 0, exp = 900, iss = Some ''joseluiscastro-portfolio'',
        aud = Some ''portfolio-users''\<rparr>)
   \<and> jwt_verify (Signed ''k-access''
       \<lparr>c_payload = \<lparr>userId = 1, email = Some ''ana@x.com'', role = Some USER,
                      name = Some ''Ana'', tokenType = None\<rparr>,
        iat = 0, exp = 900, iss = Some ''joseluiscastro-portfolio'',
        aud = Some ''portfolio-users''\<rparr>) (Some ''k-access'')
       (Some ''joseluiscastro-portfolio'') (Some ''portfolio-users'') 900000
     = Inl (TokenExpiredError ''jwt expired'')
   \<and> verifyAccessToken
       \<lparr>JWT_SECRET = Some ''k-access'', JWT_REFRESH_SECRET = Some ''k-refresh'',
        REFRESH_TOKEN_SECRET = Some ''k-route'', JWT_EXPIRES_IN = None,
        JWT_REFRESH_EXPIRES_IN = None, REFRESH_TOKEN_EXPIRES_IN = None\<rparr> 900000
       (Signed ''k-access''
         \<lparr>c_payload = \<lparr>userId = 1, email = Some ''ana@x.com'', role = Some USER,
                        name = Some ''Ana'', tokenType = None\<rparr>,
          iat = 0, exp = 900, iss = Some ''joseluiscastro-portfolio'',
          aud = Some ''portfolio-users''\<rparr>)
     = Inl (Error ''Token de acceso invalido o expirado'')
   \<and> verifyAccessToken
       \<lparr>JWT_SECRET = Some ''k-access'', JWT_REFRESH_SECRET = Some ''k-refresh'',
        REFRESH_TOKEN_SECRET = Some ''k-route'', JWT_EXPIRES_IN = None,
        JWT_REFRESH_EXPIRES_IN = None, REFRESH_TOKEN_EXPIRES_IN = None\<rparr> 900000
       (Signed ''k-access''
         \<lparr>c_payload = \<lparr>userId = 1, email = Some ''ana@x.com'', role = Some USER,
                        name = Some ''Ana'', tokenType = None\<rparr>,
          iat = 0, exp = 900, iss = Some ''joseluiscastro-portfolio'',
          aud = Some ''portfolio-users''\<rparr>)
     \<noteq> Inl (TokenExpiredError ''jwt expired'')"
  by (simp add: generateAccessToken_def verifyAccessToken_def jwt_sign_def jwt_verify_def)

text \<open>
  C4, as the code has it. Each verifier accepts exactly the tokens signed with its secret,
  not yet expired, and carrying the expected audience and issuer, and returns their
  claims; every other token, whichever check it fails, gets the same error.
\<close>

theorem verifiers_check_and_report_one_error:
  "verifyAccessToken e now tok =
     (case tok of
        Malformed s \<Rightarrow> Inl (Error ''Token de acceso invalido o expirado'')
      | Signed k c \<Rightarrow>
          if JWT_SECRET e = Some k \<and> k \<noteq> [] \<and> now div 1000 < exp c
             \<and> aud c = Some ''portfolio-users'' \<and> iss c = Some ''joseluiscastro-portfolio''
          then Inr c else Inl (Error ''Token de acceso invalido o expirado''))
   \<and> verifyRefreshToken e now tok =
     (case tok of
        Malformed s \<Rightarrow> Inl (Error ''Token de refresco invalido o expirado'')
      | Signed k c \<Rightarrow>
          if JWT_REFRESH_SECRET e = Some k \<and> k \<noteq> [] \<and> now div 1000 < exp c
             \<and> aud c = Some ''portfolio-users'' \<and> iss c = Some ''joseluiscastro-portfolio''
          then Inr c else Inl (Error ''Token de refresco invalido o expirado''))"
  by (auto simp: verifyAccessToken_def verifyRefreshToken_def jwt_verify_def
           split: token.splits option.splits)


theorem verifiers_check_and_report_one_error_witness:
  "verifyRefreshToken
     \<lparr>JWT_SECRET = Some ''k-access'', JWT_REFRESH_SECRET = Some ''k-refresh'',
      REFRESH_TOKEN_SECRET = Some ''k-route'', JWT_EXPIRES_IN = None,
      JWT_REFRESH_EXPIRES_IN = None, REFRESH_TOKEN_EXPIRES_IN = None\<rparr> 5000
     (Signed ''k-refresh''
        \<lparr>c_payload = \<lparr>userId = 1, email = Some ''ana@x.com'', role = None,
                       name = None, tokenType = Some ''refresh''\<rparr>,
         iat = 0, exp = 604800, iss = Some ''joseluiscastro-portfolio'',
         aud = Some ''portfolio-users''\<rparr>)
   = Inr \<lparr>c_payload = \<lparr>userId = 1, email = Some ''ana@x.com'', role = None,
                       name = None, tokenType = Some ''refresh''\<rparr>,
          iat = 0, exp = 604800, iss = Some ''joseluiscastro-portfolio'',
          aud = Some ''portfolio-users''\<rparr>
   \<and> verifyAccessToken
     \<lparr>JWT_SECRET = Some ''k-access'', JWT_REFRESH_SECRET = Some ''k-refresh'',
      REFRESH_TOKEN_SECRET = Some ''k-route'', JWT_EXPIRES_IN = None,
      JWT_REFRESH_EXPIRES_IN = None, REFRESH_TOKEN_EXPIRES_IN = None\<rparr> 5000
     (Signed ''k-refresh''
        \<lparr>c_payload = \<lparr>userId = 1, email = Some ''ana@x.com'', role = None,
                       name = None, tokenType = Some ''refresh''\<rparr>,
         iat = 0, exp = 604800, iss = Some ''joseluiscastro-portfolio'',
         aud = Some ''portfolio-users''\<rparr>)
   = Inl (Error ''Token de acceso invalido o expirado'')"
  using verifiers_check_and_report_one_error
    [of "\<lparr>JWT_SECRET = Some ''k-access'', JWT_REFRESH_SECRET = Some ''k-refresh'',
      REFRESH_TOKEN_SECRET = Some ''k-route'', JWT_EXPIRES_IN = None,
      JWT_REFRESH_EXPIRES_IN = None, REFRESH_TOKEN_EXPIRES_IN = None\<rparr>" 5000
     "Signed ''k-refresh''
        \<lparr>c_payload = \<lparr>userId = 1, email = Some ''ana@x.com'', role = None,
                       name = None, tokenType = Some ''refresh''\<rparr>,
         iat = 0, exp = 604800, iss = Some ''joseluiscastro-portfolio'',
         aud = Some ''portfolio-users''\<rparr>"]
  by simp

text \<open>
  Two tokens at the same instant, one signed with another key and one only expired: the
  package tells them apart, the verifier answers both with the same error.
\<close>

theorem indistinguishable_failures_counterexample:
  "jwt_verify (Signed ''forged''
       \<lparr>c_payload = \<lparr>userId = 1, email = Some ''ana@x.com'', role = Some ADMIN,
                      name = Some ''Ana'', tokenType = None\<rparr>,
        iat = 0, exp = 2000, iss = Some ''joseluiscastro-portfolio'',
        aud = Some ''portfolio-users''\<rparr>) (Some ''k-access'')
       (Some ''joseluiscastro-portfolio'') (Some ''portfolio-users'') 900000
     = Inl (JsonWebTokenError ''invalid signature'')
   \<and> jwt_verify (Signed ''k-access''
       \<lparr>c_payload = \<lparr>userId = 1, email = Some ''ana@x.com'', role = Some USER,
                      name = Some ''Ana'', tokenType = None\<rparr>,
        iat = 0, exp = 900, iss = Some ''joseluiscastro-portfolio'',
        aud = Some ''portfolio-users''\<rparr>) (Some ''k-access'')
       (Some ''joseluiscastro-portfolio'') (Some ''portfolio-users'') 900000
     = Inl (TokenExpiredError ''jwt expired'')
   \<and> verifyAccessToken
       \<lparr>JWT_SECRET = Some ''k-access'', JWT_REFRESH_SECRET = Some ''k-refresh'',
        REFRESH_TOKEN_SECRET = Some ''k-route'', JWT_EXPIRES_IN = None,
        JWT_REFRESH_EXPIRES_IN = None, REFRESH_TOKEN_EXPIRES_IN = None\<rparr> 900000
       (Signed ''forged''
         \<lparr>c_payload = \<lparr>userId = 1, email = Some ''ana@x.com'', role = Some ADMIN,
                        name = Some ''Ana'', tokenType = None\<rparr>,
          iat = 0, exp = 2000, iss = Some ''joseluiscastro-portfolio'',
          aud = Some ''portfolio-users''\<rparr>)
     = verifyAccessToken
       \<lparr>JWT_SECRET = Some ''k-access'', JWT_REFRESH_SECRET = Some ''k-refresh'',
        REFRESH_TOKEN_SECRET = Some ''k-route'', JWT_EXPIRES_IN = None,
        JWT_REFRESH_EXPIRES_IN = None, REFRESH_TOKEN_EXPIRES_IN = None\<rparr> 900000
       (Signed ''k-access''
         \<lparr>c_payload = \<lparr>userId = 1, email = Some ''ana@x.com'', role = Some USER,
                        name = Some ''Ana'', tokenType = None\<rparr>,
          iat = 0, exp = 900, iss = Some ''joseluiscastro-portfolio'',
          aud = Some ''portfolio-users''\<rparr>)"
  by (simp add: verifyAccessToken_def jwt_verify_def)

section \<open>The store of refresh tokens\<close>

text \<open>
  \<open>saveRefreshToken\<close> never leaves an account more than five records, whatever the store
  held before.
\<close>

lemma saveRefreshToken_cap:
  "length (filter (\<lambda>r. rt_userId r = uid) (refreshTokens (snd (saveRefreshToken db now uid tok ex)))) \<le> 5"
proof -
  define xs where "xs = filter (\<lambda>r. \<not> (rt_userId r = uid \<and> rt_expiresAt r < now)) (refreshTokens db)"
  define S where "S = orderByCreatedAtDesc (filter (\<lambda>r. rt_userId r = uid) xs)"
  define ys where "ys = (if 5 \<le> length S then filter (\<lambda>r. rt_id r \<notin> rt_id ` set (drop 4 S)) xs else xs)"
  have lenS: "length S = length (filter (\<lambda>r. rt_userId r = uid) xs)"
    by (simp add: S_def orderByCreatedAtDesc_def)
  have perm: "\<And>P. length (filter P S) = length (filter P (filter (\<lambda>r. rt_userId r = uid) xs))"
  proof -
    fix P
    let ?X = "filter (\<lambda>r. rt_userId r = uid) xs"
    have "length (filter P (rev (sort_key rt_createdAt ?X)))
            = length (rev (filter P (sort_key rt_createdAt ?X)))"
      by (simp only: rev_filter)
    also have "\<dots> = length (sort_key rt_createdAt (filter P ?X))"
      by (simp only: length_rev filter_sort)
    also have "\<dots> = length (filter P ?X)"
      by (simp only: length_sort)
    finally show "length (filter P S) = length (filter P ?X)"
      by (simp only: S_def orderByCreatedAtDesc_def)
  qed
  have ys4: "length (filter (\<lambda>r. rt_userId r = uid) ys) \<le> 4"
  proof (cases "5 \<le> length S")
    case False
    then show ?thesis using lenS by (simp add: ys_def)
  next
    case True
    let ?P = "\<lambda>r. rt_id r \<notin> rt_id ` set (drop 4 S)"
    have "filter (\<lambda>r. rt_userId r = uid) ys = filter ?P (filter (\<lambda>r. rt_userId r = uid) xs)"
      using True by (auto simp: ys_def intro: filter_cong)
    then have "length (filter (\<lambda>r. rt_userId r = uid) ys) = length (filter ?P S)"
      using perm [of ?P] by simp
    also have "filter ?P S = filter ?P (take 4 S) @ filter ?P (drop 4 S)"
      by (metis append_take_drop_id filter_append)
    also have "filter ?P (drop 4 S) = []"
      by (auto simp: filter_empty_conv)
    finally show ?thesis
      using length_filter_le [of ?P "take 4 S"] by simp
  qed
  have "refreshTokens (snd (saveRefreshToken db now uid tok ex)) = ys
        \<or> (\<exists>r. refreshTokens (snd (saveRefreshToken db now uid tok ex)) = ys @ [r])"
    by (auto simp: saveRefreshToken_def refreshToken_create_def Let_def ys_def S_def xs_def
             split: prod.splits option.splits if_splits)
  then show ?thesis using ys4 by auto
qed

text \<open>
  C1, at the input where the code departs from it: an account registers and then logs in
  five times, one second apart. Neither route trims the account's records, so six live
  records are stored.
\<close>

theorem login_exceeds_cap:
  "length (filter (\<lambda>r. rt_userId r = 1 \<and> 5000 < rt_expiresAt r)
     (refreshTokens
        (fold (\<lambda>t db. snd (login (\<lambda>p h. h = p)
                 \<lparr>JWT_SECRET = Some ''k-access'', JWT_REFRESH_SECRET = Some ''k-refresh'',
                  REFRESH_TOKEN_SECRET = Some ''k-route'', JWT_EXPIRES_IN = None,
                  JWT_REFRESH_EXPIRES_IN = None, REFRESH_TOKEN_EXPIRES_IN = None\<rparr>
                 db t ''ana@x.com'' ''Abcdef1''))
           [1000, 2000, 3000, 4000, 5000]
           (snd (register (\<lambda>p. p)
                   \<lparr>JWT_SECRET = Some ''k-access'', JWT_REFRESH_SECRET = Some ''k-refresh'',
                    REFRESH_TOKEN_SECRET = Some ''k-route'', JWT_EXPIRES_IN = None,
                    JWT_REFRESH_EXPIRES_IN = None, REFRESH_TOKEN_EXPIRES_IN = None\<rparr>
                   \<lparr>users = [], refreshTokens = [], nextId = 1\<rparr> 0
                   ''Ana'' ''ana@x.com'' ''Abcdef1''))))) = 6"
  by (simp add: login_def register_def generateTokens_def jwt_sign_def
        refreshToken_create_def Let_def)

text \<open>
  C2. If every stored record with token \<open>t\<close> has its expiry in the past (in particular
  if none is stored, as after a revocation), then \<open>findRefreshToken\<close> returns nothing for
  \<open>t\<close> and \<open>POST /api/auth/refresh\<close> with \<open>t\<close> answers 401.
\<close>

theorem revoked_or_expired_refresh_token_rejected:
  assumes "\<forall>r \<in> set (refreshTokens db). rt_token r = t \<longrightarrow> rt_expiresAt r < now"
  shows "findRefreshToken db now t = None
       \<and> status (fst (refresh e db now (JTok t))) = 401
       \<and> snd (refresh e db now (JTok t)) = db"
proof -
  have f: "find (\<lambda>r. rt_token r = t \<and> now < rt_expiresAt r) (refreshTokens db) = None"
    using assms by (fastforce simp: find_None_iff)
  have g: "\<And>r. find (\<lambda>r. JTok (rt_token r) = JTok t) (refreshTokens db) = Some r
             \<Longrightarrow> rt_expiresAt r < now"
    using assms by (auto simp: find_Some_iff)
  show ?thesis
    using f g
    by (auto simp: findRefreshToken_def refresh_def error_response_def
             split: sum.splits option.splits)
qed

theorem revoked_or_expired_refresh_token_rejected_witness:
  "refreshTokens (snd (logout
        \<lparr>users = [\<lparr>u_id = 1, u_name = ''Ana'', u_email = ''ana@x.com'', u_password = ''h'',
                   u_role = USER, u_isActive = True\<rparr>],
         refreshTokens = [\<lparr>rt_id = 2, rt_token = Signed ''k-route''
              \<lparr>c_payload = \<lparr>userId = 1, email = None, role = None, name = None,
                             tokenType = None\<rparr>,
               iat = 0, exp = 604800, iss = None, aud = None\<rparr>,
            rt_userId = 1, rt_expiresAt = 604800000, rt_createdAt = 0\<rparr>],
         nextId = 3\<rparr> 1
        (JTok (Signed ''k-route''
              \<lparr>c_payload = \<lparr>userId = 1, email = None, role = None, name = None,
                             tokenType = None\<rparr>,
               iat = 0, exp = 604800, iss = None, aud = None\<rparr>)))) = []
   \<and> status (fst (refresh
        \<lparr>JWT_SECRET = Some ''k-access'', JWT_REFRESH_SECRET = Some ''k-refresh'',
         REFRESH_TOKEN_SECRET = Some ''k-route'', JWT_EXPIRES_IN = None,
         JWT_REFRESH_EXPIRES_IN = None, REFRESH_TOKEN_EXPIRES_IN = None\<rparr>
        (snd (logout
        \<lparr>users = [\<lparr>u_id = 1, u_name = ''Ana'', u_email = ''ana@x.com'', u_password = ''h'',
                   u_role = USER, u_isActive = True\<rparr>],
         refreshTokens = [\<lparr>rt_id = 2, rt_token = Signed ''k-route''
              \<lparr>c_payload = \<lparr>userId = 1, email = None, role = None, name = None,
                             tokenType = None\<rparr>,
               iat = 0, exp = 604800, iss = None, aud = None\<rparr>,
            rt_userId = 1, rt_expiresAt = 604800000, rt_createdAt = 0\<rparr>],
         nextId = 3\<rparr> 1
        (JTok (Signed ''k-route''
              \<lparr>c_payload = \<lparr>userId = 1, email = None, role = None, name = None,
                             tokenType = None\<rparr>,
               iat = 0, exp = 604800, iss = None, aud = None\<rparr>))))
        1000
        (JTok (Signed ''k-route''
              \<lparr>c_payload = \<lparr>userId = 1, email = None, role = None, name = None,
                             tokenType = None\<rparr>,
               iat = 0, exp = 604800, iss = None, aud = None\<rparr>)))) = 401
   \<and> status (fst (refresh
        \<lparr>JWT_SECRET = Some ''k-access'', JWT_REFRESH_SECRET = Some ''k-refresh'',
         REFRESH_TOKEN_SECRET = Some ''k-route'', JWT_EXPIRES_IN = None,
         JWT_REFRESH_EXPIRES_IN = None, REFRESH_TOKEN_EXPIRES_IN = None\<rparr>
        \<lparr>users = [\<lparr>u_id = 1, u_name = ''Ana'', u_email = ''ana@x.com'', u_password = ''h'',
                   u_role = USER, u_isActive = True\<rparr>],
         refreshTokens = [\<lparr>rt_id = 2, rt_token = Signed ''k-route''
              \<lparr>c_payload = \<lparr>userId = 1, email = None, role = None, name = None,
                             tokenType = None\<rparr>,
               iat = 0, exp = 604800, iss = None, aud = None\<rparr>,
            rt_userId = 1, rt_expiresAt = 604800000, rt_createdAt = 0\<rparr>],
         nextId = 3\<rparr>
        1000
        (JTok (Signed ''k-route''
              \<lparr>c_payload = \<lparr>userId = 1, email = None, role = None, name = None,
                             tokenType = None\<rparr>,
               iat = 0, exp = 604800, iss = None, aud = None\<rparr>)))) = 200"
  using revoked_or_expired_refresh_token_rejected
    [of "snd (logout
        \<lparr>users = [\<lparr>u_id = 1, u_name = ''Ana'', u_email = ''ana@x.com'', u_password = ''h'',
                   u_role = USER, u_isActive = True\<rparr>],
         refreshTokens = [\<lparr>rt_id = 2, rt_token = Signed ''k-route''
              \<lparr>c_payload = \<lparr>userId = 1, email = None, role = None, name = None,
                             tokenType = None\<rparr>,
               iat = 0, exp = 604800, iss = None, aud = None\<rparr>,
            rt_userId = 1, rt_expiresAt = 604800000, rt_createdAt = 0\<rparr>],
         nextId = 3\<rparr> 1
        (JTok (Signed ''k-route''
              \<lparr>c_payload = \<lparr>userId = 1, email = None, role = None, name = None,
                             tokenType = None\<rparr>,
               iat = 0, exp = 604800, iss = None, aud = None\<rparr>)))"
        "Signed ''k-route''
              \<lparr>c_payload = \<lparr>userId = 1, email = None, role = None, name = None,
                             tokenType = None\<rparr>,
               iat = 0, exp = 604800, iss = None, aud = None\<rparr>" 1000
        "\<lparr>JWT_SECRET = Some ''k-access'', JWT_REFRESH_SECRET = Some ''k-refresh'',
         REFRESH_TOKEN_SECRET = Some ''k-route'', JWT_EXPIRES_IN = None,
         JWT_REFRESH_EXPIRES_IN = None, REFRESH_TOKEN_EXPIRES_IN = None\<rparr>"]
  by (simp add: logout_def refresh_def jwt_verify_def jwt_sign_def error_response_def)

text \<open>Revocation leaves no record with the token: by the token service, and by logout.\<close>

lemma deleteRefreshToken_revokes:
  "\<forall>r \<in> set (refreshTokens (snd (deleteRefreshToken db t))). rt_token r \<noteq> t"
  by (simp add: deleteRefreshToken_def)

lemma logout_revokes:
  assumes "\<forall>r \<in> set (refreshTokens db). rt_token r = t \<longrightarrow> rt_userId r = uid"
  shows "\<forall>r \<in> set (refreshTokens (snd (logout db uid (JTok t)))). rt_token r \<noteq> t"
  using assms by (auto simp: logout_def)


text \<open>
  C9. \<open>POST /api/auth/refresh\<close> writes nothing: the store after it is the store before
  it. When it answers 200, a record with the presented token is stored and has not
  expired, and the body's \<open>data\<close> holds an access token signed at this instant and the
  user, and no \<open>refreshToken\<close>: a client whose renewal receives this body reads
  \<open>undefined\<close> for it, keeps that as its refresh token, and stores the string
  \<open>undefined\<close> under that key.
\<close>

theorem refresh_is_read_only:
  "snd (refresh e db now rt) = db
   \<and> (status (fst (refresh e db now rt)) = 200 \<longrightarrow>
        (\<exists>r \<in> set (refreshTokens db). JTok (rt_token r) = rt \<and> now \<le> rt_expiresAt r)
      \<and> (\<exists>d k cl u. get_prop (body (fst (refresh e db now rt))) ''data'' = Some d
            \<and> get_prop d ''accessToken'' = Some (JTok (Signed k cl))
            \<and> JWT_SECRET e = Some k \<and> iat cl = now div 1000
            \<and> get_prop d ''user'' = Some (JObj u)
            \<and> get_prop d ''refreshToken'' = Some JUndefined)
      \<and> (\<forall>fetch c w w1.
            fetch w (baseURL c @ ''/auth/refresh'')
              \<lparr>cfg_method = Some ''POST'',
               cfg_headers = [(''Content-Type'', Lit ''application/json'')],
               cfg_body = Some (JObj [(''refreshToken'', refreshToken c)])\<rparr>
              = (Response 200 (Some (body (fst (refresh e db now rt)))), w1)
            \<longrightarrow> fst (renewToken fetch c w)
              \<and> refreshToken (fst (snd (renewToken fetch c w))) = JUndefined
              \<and> localStorage (fst (snd (renewToken fetch c w))) ''refreshToken'' = Some (JStr ''undefined'')))"
proof -
  have ro: "snd (refresh e db now rt) = db"
    by (simp add: refresh_def split: sum.splits option.splits json.splits)
  have ok: "status (fst (refresh e db now rt)) = 200 \<Longrightarrow>
      \<exists>r (u::user) k. find (\<lambda>r. JTok (rt_token r) = rt) (refreshTokens db) = Some r \<and> \<not> rt_expiresAt r < now
        \<and> JWT_SECRET e = Some k
        \<and> body (fst (refresh e db now rt)) = JObj
             [(''success'', JBool True), (''message'', JStr ''Token renovado exitosamente''),
              (''data'', JObj
                 [(''accessToken'', JTok (Signed k
                     \<lparr>c_payload = \<lparr>userId = u_id u, email = None, role = None, name = None, tokenType = None\<rparr>,
                      iat = now div 1000,
                      exp = now div 1000 + (case JWT_EXPIRES_IN e of None \<Rightarrow> 24 * 60 * 60 | Some n \<Rightarrow> n),
                      iss = None, aud = None\<rparr>)),
                  (''user'', JObj [(''id'', JNum (int (u_id u))), (''name'', JStr (u_name u)),
                                   (''email'', JStr (u_email u)), (''role'', role_json (u_role u)),
                                   (''isActive'', JBool (u_isActive u))])])]"
    by (auto simp: refresh_def error_response_def jwt_sign_def
             split: sum.splits option.splits json.splits if_splits)
  show ?thesis
  proof (intro conjI impI)
    show "snd (refresh e db now rt) = db" by (rule ro)
  next
    assume s: "status (fst (refresh e db now rt)) = 200"
    from ok [OF s] obtain r where f: "find (\<lambda>r. JTok (rt_token r) = rt) (refreshTokens db) = Some r"
      and live: "\<not> rt_expiresAt r < now" by blast
    from f have "r \<in> set (refreshTokens db) \<and> JTok (rt_token r) = rt"
      by (auto simp: find_Some_iff)
    with live show "\<exists>r \<in> set (refreshTokens db). JTok (rt_token r) = rt \<and> now \<le> rt_expiresAt r"
      by auto
  next
    assume s: "status (fst (refresh e db now rt)) = 200"
    from ok [OF s] show "\<exists>d k cl u. get_prop (body (fst (refresh e db now rt))) ''data'' = Some d
            \<and> get_prop d ''accessToken'' = Some (JTok (Signed k cl))
            \<and> JWT_SECRET e = Some k \<and> iat cl = now div 1000
            \<and> get_prop d ''user'' = Some (JObj u)
            \<and> get_prop d ''refreshToken'' = Some JUndefined"
      by auto
  next
    assume s: "status (fst (refresh e db now rt)) = 200"
    from ok [OF s] show "\<forall>fetch c w w1.
            fetch w (baseURL c @ ''/auth/refresh'')
              \<lparr>cfg_method = Some ''POST'',
               cfg_headers = [(''Content-Type'', Lit ''application/json'')],
               cfg_body = Some (JObj [(''refreshToken'', refreshToken c)])\<rparr>
              = (Response 200 (Some (body (fst (refresh e db now rt)))), w1)
            \<longrightarrow> fst (renewToken fetch c w)
              \<and> refreshToken (fst (snd (renewToken fetch c w))) = JUndefined
              \<and> localStorage (fst (snd (renewToken fetch c w))) ''refreshToken'' = Some (JStr ''undefined'')"
      by (auto simp: renewToken_def setTokens_def Let_def)
  qed
qed

theorem refresh_is_read_only_witness:
  "refresh
     \<lparr>JWT_SECRET = Some ''k-access'', JWT_REFRESH_SECRET = Some ''k-refresh'',
      REFRESH_TOKEN_SECRET = Some ''k-route'', JWT_EXPIRES_IN = None,
      JWT_REFRESH_EXPIRES_IN = None, REFRESH_TOKEN_EXPIRES_IN = None\<rparr>
     \<lparr>users = [\<lparr>u_id = 1, u_name = ''Ana'', u_email = ''ana@x.com'', u_password = ''h'',
                u_role = USER, u_isActive = True\<rparr>],
      refreshTokens = [\<lparr>rt_id = 2, rt_token = Signed ''k-route''
           \<lparr>c_payload = \<lparr>userId = 1, email = None, role = None, name = None,
                          tokenType = None\<rparr>,
            iat = 0, exp = 604800, iss = None, aud = None\<rparr>,
         rt_userId = 1, rt_expiresAt = 604800000, rt_createdAt = 0\<rparr>],
      nextId = 3\<rparr>
     60000
     (JTok (Signed ''k-route''
           \<lparr>c_payload = \<lparr>userId = 1, email = None, role = None, name = None,
                          tokenType = None\<rparr>,
            iat = 0, exp = 604800, iss = None, aud = None\<rparr>))
   = (\<lparr>status = 200, body = JObj
        [(''success'', JBool True), (''message'', JStr ''Token renovado exitosamente''),
         (''data'', JObj
            [(''accessToken'', JTok (Signed ''k-access''
                \<lparr>c_payload = \<lparr>userId = 1, email = None, role = None, name = None,
                               tokenType = None\<rparr>,
                 iat = 60, exp = 86460, iss = None, aud = None\<rparr>)),
             (''user'', JObj [(''id'', JNum 1), (''name'', JStr ''Ana''),
                              (''email'', JStr ''ana@x.com''), (''role'', JStr ''USER''),
                              (''isActive'', JBool True)])])]\<rparr>,
      \<lparr>users = [\<lparr>u_id = 1, u_name = ''Ana'', u_email = ''ana@x.com'', u_password = ''h'',
                u_role = USER, u_isActive = True\<rparr>],
       refreshTokens = [\<lparr>rt_id = 2, rt_token = Signed ''k-route''
           \<lparr>c_payload = \<lparr>userId = 1, email = None, role = None, name = None,
                          tokenType = None\<rparr>,
            iat = 0, exp = 604800, iss = None, aud = None\<rparr>,
         rt_userId = 1, rt_expiresAt = 604800000, rt_createdAt = 0\<rparr>],
       nextId = 3\<rparr>)"
  using refresh_is_read_only
    [of "\<lparr>JWT_SECRET = Some ''k-access'', JWT_REFRESH_SECRET = Some ''k-refresh'',
      REFRESH_TOKEN_SECRET = Some ''k-route'', JWT_EXPIRES_IN = None,
      JWT_REFRESH_EXPIRES_IN = None, REFRESH_TOKEN_EXPIRES_IN = None\<rparr>"
     "\<lparr>users = [\<lparr>u_id = 1, u_name = ''Ana'', u_email = ''ana@x.com'', u_password = ''h'',
                u_role = USER, u_isActive = True\<rparr>],
      refreshTokens = [\<lparr>rt_id = 2, rt_token = Signed ''k-route''
           \<lparr>c_payload = \<lparr>userId = 1, email = None, role = None, name = None,
                          tokenType = None\<rparr>,
            iat = 0, exp = 604800, iss = None, aud = None\<rparr>,
         rt_userId = 1, rt_expiresAt = 604800000, rt_createdAt = 0\<rparr>],
      nextId = 3\<rparr>" 60000
     "JTok (Signed ''k-route''
           \<lparr>c_payload = \<lparr>userId = 1, email = None, role = None, name = None,
                          tokenType = None\<rparr>,
            iat = 0, exp = 604800, iss = None, aud = None\<rparr>)"]
  by (simp add: refresh_def jwt_verify_def jwt_sign_def role_json_def)

section \<open>The client's renewal on 401\<close>

lemma request_log_shape:
  "(case request fetch c w endpoint options of
      (out, c2, w2, tr) \<Rightarrow>
        length (filter is_original tr) = 1
        \<and> length (filter is_renewal tr) \<le> 1
        \<and> length (filter is_retry tr) \<le> 1)
   \<and> (\<forall>js w1.
         fetch w (baseURL c @ endpoint) (request_config c options) = (Response 401 js, w1) \<longrightarrow>
         (case request fetch c w endpoint options of
            (out, c2, w2, tr) \<Rightarrow>
              if truthy (refreshToken c) then
                (case renewToken fetch c w1 of
                   (renewed, cr, wr, ev) \<Rightarrow>
                     c2 = cr
                     \<and> length ev = 1 \<and> list_all is_renewal ev
                     \<and> (if renewed then
                           tr = Original (baseURL c @ endpoint) (request_config c options) # ev
                                @ [Retry (baseURL c @ endpoint)
                                     ((request_config c options)\<lparr>cfg_headers :=
                                        set_header (cfg_headers (request_config c options))
                                          ''Authorization'' (Bearer (accessToken cr))\<rparr>)]
                           \<and> map_of (cfg_headers ((request_config c options)\<lparr>cfg_headers :=
                                        set_header (cfg_headers (request_config c options))
                                          ''Authorization'' (Bearer (accessToken cr))\<rparr>))
                                 ''Authorization'' = Some (Bearer (accessToken cr))
                           \<and> (out, w2) =
                               (case fetch wr (baseURL c @ endpoint)
                                       ((request_config c options)\<lparr>cfg_headers :=
                                          set_header (cfg_headers (request_config c options))
                                            ''Authorization'' (Bearer (accessToken cr))\<rparr>) of
                                  (Rejected, w3) \<Rightarrow> (Threw, w3)
                                | (Response st2 js2, w3) \<Rightarrow> (Returned st2 js2, w3))
                         else
                           tr = Original (baseURL c @ endpoint) (request_config c options) # ev
                           \<and> out = Returned 401 js \<and> w2 = wr
                           \<and> accessToken c2 = JNull \<and> refreshToken c2 = JNull
                           \<and> localStorage c2 ''accessToken'' = None
                           \<and> localStorage c2 ''refreshToken'' = None))
              else tr = [Original (baseURL c @ endpoint) (request_config c options)]
                   \<and> out = Returned 401 js \<and> c2 = c \<and> w2 = w1))"
proof -
  have ev: "\<And>w1. \<exists>b cr wr u cfg. renewToken fetch c w1 = (b, cr, wr, [Renewal u cfg])
              \<and> (\<not> b \<longrightarrow> cr = clearTokens c)"
    by (auto simp: renewToken_def Let_def split: prod.splits fetch_result.splits option.splits)
  show ?thesis
  proof (intro conjI allI impI)
    show "case request fetch c w endpoint options of
      (out, c2, w2, tr) \<Rightarrow>
        length (filter is_original tr) = 1
        \<and> length (filter is_renewal tr) \<le> 1
        \<and> length (filter is_retry tr) \<le> 1"
    proof (cases "fetch w (baseURL c @ endpoint) (request_config c options)")
      case (Pair fr w1)
      obtain b cr wr u cfg where r: "renewToken fetch c w1 = (b, cr, wr, [Renewal u cfg])"
        using ev [of w1] by blast
      show ?thesis using Pair r
        by (auto simp: request_def Let_def split: prod.splits fetch_result.splits)
    qed
  next
    fix js w1
    assume f: "fetch w (baseURL c @ endpoint) (request_config c options) = (Response 401 js, w1)"
    obtain b cr wr u cfg where r: "renewToken fetch c w1 = (b, cr, wr, [Renewal u cfg])"
      and cl: "\<not> b \<longrightarrow> cr = clearTokens c"
      using ev [of w1] by blast
    show "case request fetch c w endpoint options of
            (out, c2, w2, tr) \<Rightarrow>
              if truthy (refreshToken c) then
                (case renewToken fetch c w1 of
                   (renewed, cr, wr, ev) \<Rightarrow>
                     c2 = cr
                     \<and> length ev = 1 \<and> list_all is_renewal ev
                     \<and> (if renewed then
                           tr = Original (baseURL c @ endpoint) (request_config c options) # ev
                                @ [Retry (baseURL c @ endpoint)
                                     ((request_config c options)\<lparr>cfg_headers :=
                                        set_header (cfg_headers (request_config c options))
                                          ''Authorization'' (Bearer (accessToken cr))\<rparr>)]
                           \<and> map_of (cfg_headers ((request_config c options)\<lparr>cfg_headers :=
                                        set_header (cfg_headers (request_config c options))
                                          ''Authorization'' (Bearer (accessToken cr))\<rparr>))
                                 ''Authorization'' = Some (Bearer (accessToken cr))
                           \<and> (out, w2) =
                               (case fetch wr (baseURL c @ endpoint)
                                       ((request_config c options)\<lparr>cfg_headers :=
                                          set_header (cfg_headers (request_config c options))
                                            ''Authorization'' (Bearer (accessToken cr))\<rparr>) of
                                  (Rejected, w3) \<Rightarrow> (Threw, w3)
                                | (Response st2 js2, w3) \<Rightarrow> (Returned st2 js2, w3))
                         else
                           tr = Original (baseURL c @ endpoint) (request_config c options) # ev
                           \<and> out = Returned 401 js \<and> w2 = wr
                           \<and> accessToken c2 = JNull \<and> refreshToken c2 = JNull
                           \<and> localStorage c2 ''accessToken'' = None
                           \<and> localStorage c2 ''refreshToken'' = None))
              else tr = [Original (baseURL c @ endpoint) (request_config c options)]
                   \<and> out = Returned 401 js \<and> c2 = c \<and> w2 = w1"
      using f r cl
      by (auto simp: request_def Let_def set_header_def clearTokens_def
               split: prod.splits fetch_result.splits)
  qed
qed

lemma request_on_refresh_answer:
  "(\<forall>js w1 fr w2.
       fetch w (baseURL c @ endpoint) (request_config c options) = (Response 401 js, w1)
       \<and> truthy (refreshToken c)
       \<and> fetch w1 (baseURL c @ ''/auth/refresh'')
             \<lparr>cfg_method = Some ''POST'',
              cfg_headers = [(''Content-Type'', Lit ''application/json'')],
              cfg_body = Some (JObj [(''refreshToken'', refreshToken c)])\<rparr> = (fr, w2)
       \<longrightarrow>
         ((fr = Rejected \<or> (\<exists>st b. fr = Response st b \<and> (st < 200 \<or> 299 < st))
           \<or> (\<exists>st. fr = Response st None)
           \<or> (\<exists>st data. fr = Response st (Some data) \<and> get_prop data ''data'' = None)
           \<or> (\<exists>st data d. fr = Response st (Some data) \<and> get_prop data ''data'' = Some d
                  \<and> get_prop d ''accessToken'' = None)
           \<longrightarrow>
             request fetch c w endpoint options
               = (Returned 401 js, clearTokens c, w2,
                  [Original (baseURL c @ endpoint) (request_config c options),
                   Renewal (baseURL c @ ''/auth/refresh'')
                     \<lparr>cfg_method = Some ''POST'',
                      cfg_headers = [(''Content-Type'', Lit ''application/json'')],
                      cfg_body = Some (JObj [(''refreshToken'', refreshToken c)])\<rparr>]))
        \<and> (\<forall>st data d a r.
              fr = Response st (Some data) \<and> 200 \<le> st \<and> st \<le> 299
              \<and> get_prop data ''data'' = Some d
              \<and> get_prop d ''accessToken'' = Some a \<and> get_prop d ''refreshToken'' = Some r
              \<longrightarrow>
                request fetch c w endpoint options
                  = (case fetch w2 (baseURL c @ endpoint)
                            ((request_config c options)\<lparr>cfg_headers :=
                               set_header (cfg_headers (request_config c options))
                                 ''Authorization'' (Bearer a)\<rparr>) of
                       (Rejected, w3) \<Rightarrow>
                         (Threw, setTokens c a r, w3,
                          [Original (baseURL c @ endpoint) (request_config c options),
                           Renewal (baseURL c @ ''/auth/refresh'')
                             \<lparr>cfg_method = Some ''POST'',
                              cfg_headers = [(''Content-Type'', Lit ''application/json'')],
                              cfg_body = Some (JObj [(''refreshToken'', refreshToken c)])\<rparr>,
                           Retry (baseURL c @ endpoint)
                             ((request_config c options)\<lparr>cfg_headers :=
                                set_header (cfg_headers (request_config c options))
                                  ''Authorization'' (Bearer a)\<rparr>)])
                     | (Response st2 js2, w3) \<Rightarrow>
                         (Returned st2 js2, setTokens c a r, w3,
                          [Original (baseURL c @ endpoint) (request_config c options),
                           Renewal (baseURL c @ ''/auth/refresh'')
                             \<lparr>cfg_method = Some ''POST'',
                              cfg_headers = [(''Content-Type'', Lit ''application/json'')],
                              cfg_body = Some (JObj [(''refreshToken'', refreshToken c)])\<rparr>,
                           Retry (baseURL c @ endpoint)
                             ((request_config c options)\<lparr>cfg_headers :=
                                set_header (cfg_headers (request_config c options))
                                  ''Authorization'' (Bearer a)\<rparr>)])))))"
proof (intro allI impI conjI)
  fix js w1 fr w2
  assume h: "fetch w (baseURL c @ endpoint) (request_config c options) = (Response 401 js, w1)
       \<and> truthy (refreshToken c)
       \<and> fetch w1 (baseURL c @ ''/auth/refresh'')
             \<lparr>cfg_method = Some ''POST'',
              cfg_headers = [(''Content-Type'', Lit ''application/json'')],
              cfg_body = Some (JObj [(''refreshToken'', refreshToken c)])\<rparr> = (fr, w2)"
  assume f: "fr = Rejected \<or> (\<exists>st b. fr = Response st b \<and> (st < 200 \<or> 299 < st))
           \<or> (\<exists>st. fr = Response st None)
           \<or> (\<exists>st data. fr = Response st (Some data) \<and> get_prop data ''data'' = None)
           \<or> (\<exists>st data d. fr = Response st (Some data) \<and> get_prop data ''data'' = Some d
                  \<and> get_prop d ''accessToken'' = None)"
  have "renewToken fetch c w1 = (False, clearTokens c, w2,
          [Renewal (baseURL c @ ''/auth/refresh'')
                     \<lparr>cfg_method = Some ''POST'',
                      cfg_headers = [(''Content-Type'', Lit ''application/json'')],
                      cfg_body = Some (JObj [(''refreshToken'', refreshToken c)])\<rparr>])"
    using h f by (auto simp: renewToken_def Let_def split: option.splits)
  then show "request fetch c w endpoint options
               = (Returned 401 js, clearTokens c, w2,
                  [Original (baseURL c @ endpoint) (request_config c options),
                   Renewal (baseURL c @ ''/auth/refresh'')
                     \<lparr>cfg_method = Some ''POST'',
                      cfg_headers = [(''Content-Type'', Lit ''application/json'')],
                      cfg_body = Some (JObj [(''refreshToken'', refreshToken c)])\<rparr>])"
    using h by (simp add: request_def Let_def)
next
  fix js w1 fr w2 st data d a r
  assume h: "fetch w (baseURL c @ endpoint) (request_config c options) = (Response 401 js, w1)
       \<and> truthy (refreshToken c)
       \<and> fetch w1 (baseURL c @ ''/auth/refresh'')
             \<lparr>cfg_method = Some ''POST'',
              cfg_headers = [(''Content-Type'', Lit ''application/json'')],
              cfg_body = Some (JObj [(''refreshToken'', refreshToken c)])\<rparr> = (fr, w2)"
  assume s: "fr = Response st (Some data) \<and> 200 \<le> st \<and> st \<le> 299
              \<and> get_prop data ''data'' = Some d
              \<and> get_prop d ''accessToken'' = Some a \<and> get_prop d ''refreshToken'' = Some r"
  have rn: "renewToken fetch c w1 = (True, setTokens c a r, w2,
          [Renewal (baseURL c @ ''/auth/refresh'')
                     \<lparr>cfg_method = Some ''POST'',
                      cfg_headers = [(''Content-Type'', Lit ''application/json'')],
                      cfg_body = Some (JObj [(''refreshToken'', refreshToken c)])\<rparr>])"
    using h s by (simp add: renewToken_def Let_def)
  have acc: "accessToken (setTokens c a r) = a" by (simp add: setTokens_def)
  show "request fetch c w endpoint options
                  = (case fetch w2 (baseURL c @ endpoint)
                            ((request_config c options)\<lparr>cfg_headers :=
                               set_header (cfg_headers (request_config c options))
                                 ''Authorization'' (Bearer a)\<rparr>) of
                       (Rejected, w3) \<Rightarrow>
                         (Threw, setTokens c a r, w3,
                          [Original (baseURL c @ endpoint) (request_config c options),
                           Renewal (baseURL c @ ''/auth/refresh'')
                             \<lparr>cfg_method = Some ''POST'',
                              cfg_headers = [(''Content-Type'', Lit ''application/json'')],
                              cfg_body = Some (JObj [(''refreshToken'', refreshToken c)])\<rparr>,
                           Retry (baseURL c @ endpoint)
                             ((request_config c options)\<lparr>cfg_headers :=
                                set_header (cfg_headers (request_config c options))
                                  ''Authorization'' (Bearer a)\<rparr>)])
                     | (Response st2 js2, w3) \<Rightarrow>
                         (Returned st2 js2, setTokens c a r, w3,
                          [Original (baseURL c @ endpoint) (request_config c options),
                           Renewal (baseURL c @ ''/auth/refresh'')
                             \<lparr>cfg_method = Some ''POST'',
                              cfg_headers = [(''Content-Type'', Lit ''application/json'')],
                              cfg_body = Some (JObj [(''refreshToken'', refreshToken c)])\<rparr>,
                           Retry (baseURL c @ endpoint)
                             ((request_config c options)\<lparr>cfg_headers :=
                                set_header (cfg_headers (request_config c options))
                                  ''Authorization'' (Bearer a)\<rparr>)]))"
    using h rn acc
    by (simp add: request_def Let_def split: prod.splits fetch_result.splits)
qed

text \<open>
  C5. In every run of \<open>request\<close> the original call is sent once, the renewal at most once
  and the retry at most once. When the original call is answered 401: with a refresh
  token at hand the client makes the one renewal call; if the renewal succeeds, the log
  is the original call, the renewal and one retry, the retry carries the bearer header
  of the client's new access token, and its outcome is what \<open>request\<close> returns; if the
  renewal fails, there is no retry, the stored tokens are cleared and the original 401
  response is returned. Without a refresh token nothing is renewed and the 401 is
  returned.

  Success and failure of the renewal are what the refresh call answers. If that call is
  rejected, or answered with a status outside 200 to 299, or with a body that is no JSON
  or has no readable \<open>data\<close>, then \<open>request\<close> returns the original 401 response, the
  tokens are cleared, and the log is the original call and the renewal, nothing else. If
  it is answered 2xx with a \<open>data\<close> object, the tokens are set to that object's
  \<open>accessToken\<close> and \<open>refreshToken\<close>, the original call is retried once with the
  bearer header of that access token, and the outcome of the retry is returned.
\<close>

theorem request_renews_once_retries_once:
  "((case request fetch c w endpoint options of
      (out, c2, w2, tr) \<Rightarrow>
        length (filter is_original tr) = 1
        \<and> length (filter is_renewal tr) \<le> 1
        \<and> length (filter is_retry tr) \<le> 1)
   \<and> (\<forall>js w1.
         fetch w (baseURL c @ endpoint) (request_config c options) = (Response 401 js, w1) \<longrightarrow>
         (case request fetch c w endpoint options of
            (out, c2, w2, tr) \<Rightarrow>
              if truthy (refreshToken c) then
                (case renewToken fetch c w1 of
                   (renewed, cr, wr, ev) \<Rightarrow>
                     c2 = cr
                     \<and> length ev = 1 \<and> list_all is_renewal ev
                     \<and> (if renewed then
                           tr = Original (baseURL c @ endpoint) (request_config c options) # ev
                                @ [Retry (baseURL c @ endpoint)
                                     ((request_config c options)\<lparr>cfg_headers :=
                                        set_header (cfg_headers (request_config c options))
                                          ''Authorization'' (Bearer (accessToken cr))\<rparr>)]
                           \<and> map_of (cfg_headers ((request_config c options)\<lparr>cfg_headers :=
                                        set_header (cfg_headers (request_config c options))
                                          ''Authorization'' (Bearer (accessToken cr))\<rparr>))
                                 ''Authorization'' = Some (Bearer (accessToken cr))
                           \<and> (out, w2) =
                               (case fetch wr (baseURL c @ endpoint)
                                       ((request_config c options)\<lparr>cfg_headers :=
                                          set_header (cfg_headers (request_config c options))
                                            ''Authorization'' (Bearer (accessToken cr))\<rparr>) of
                                  (Rejected, w3) \<Rightarrow> (Threw, w3)
                                | (Response st2 js2, w3) \<Rightarrow> (Returned st2 js2, w3))
                         else
                           tr = Original (baseURL c @ endpoint) (request_config c options) # ev
                           \<and> out = Returned 401 js \<and> w2 = wr
                           \<and> accessToken c2 = JNull \<and> refreshToken c2 = JNull
                           \<and> localStorage c2 ''accessToken'' = None
                           \<and> localStorage c2 ''refreshToken'' = None))
              else tr = [Original (baseURL c @ endpoint) (request_config c options)]
                   \<and> out = Returned 401 js \<and> c2 = c \<and> w2 = w1)))
   \<and> ((\<forall>js w1 fr w2.
       fetch w (baseURL c @ endpoint) (request_config c options) = (Response 401 js, w1)
       \<and> truthy (refreshToken c)
       \<and> fetch w1 (baseURL c @ ''/auth/refresh'')
             \<lparr>cfg_method = Some ''POST'',
              cfg_headers = [(''Content-Type'', Lit ''application/json'')],
              cfg_body = Some (JObj [(''refreshToken'', refreshToken c)])\<rparr> = (fr, w2)
       \<longrightarrow>
         ((fr = Rejected \<or> (\<exists>st b. fr = Response st b \<and> (st < 200 \<or> 299 < st))
           \<or> (\<exists>st. fr = Response st None)
           \<or> (\<exists>st data. fr = Response st (Some data) \<and> get_prop data ''data'' = None)
           \<or> (\<exists>st data d. fr = Response st (Some data) \<and> get_prop data ''data'' = Some d
                  \<and> get_prop d ''accessToken'' = None)
           \<longrightarrow>
             request fetch c w endpoint options
               = (Returned 401 js, clearTokens c, w2,
                  [Original (baseURL c @ endpoint) (request_config c options),
                   Renewal (baseURL c @ ''/auth/refresh'')
                     \<lparr>cfg_method = Some ''POST'',
                      cfg_headers = [(''Content-Type'', Lit ''application/json'')],
                      cfg_body = Some (JObj [(''refreshToken'', refreshToken c)])\<rparr>]))
        \<and> (\<forall>st data d a r.
              fr = Response st (Some data) \<and> 200 \<le> st \<and> st \<le> 299
              \<and> get_prop data ''data'' = Some d
              \<and> get_prop d ''accessToken'' = Some a \<and> get_prop d ''refreshToken'' = Some r
              \<longrightarrow>
                request fetch c w endpoint options
                  = (case fetch w2 (baseURL c @ endpoint)
                            ((request_config c options)\<lparr>cfg_headers :=
                               set_header (cfg_headers (request_config c options))
                                 ''Authorization'' (Bearer a)\<rparr>) of
                       (Rejected, w3) \<Rightarrow>
                         (Threw, setTokens c a r, w3,
                          [Original (baseURL c @ endpoint) (request_config c options),
                           Renewal (baseURL c @ ''/auth/refresh'')
                             \<lparr>cfg_method = Some ''POST'',
                              cfg_headers = [(''Content-Type'', Lit ''application/json'')],
                              cfg_body = Some (JObj [(''refreshToken'', refreshToken c)])\<rparr>,
                           Retry (baseURL c @ endpoint)
                             ((request_config c options)\<lparr>cfg_headers :=
                                set_header (cfg_headers (request_config c options))
                                  ''Authorization'' (Bearer a)\<rparr>)])
                     | (Response st2 js2, w3) \<Rightarrow>
                         (Returned st2 js2, setTokens c a r, w3,
                          [Original (baseURL c @ endpoint) (request_config c options),
                           Renewal (baseURL c @ ''/auth/refresh'')
                             \<lparr>cfg_method = Some ''POST'',
                              cfg_headers = [(''Content-Type'', Lit ''application/json'')],
                              cfg_body = Some (JObj [(''refreshToken'', refreshToken c)])\<rparr>,
                           Retry (baseURL c @ endpoint)
                             ((request_config c options)\<lparr>cfg_headers :=
                                set_header (cfg_headers (request_config c options))
                                  ''Authorization'' (Bearer a)\<rparr>)]))))))"
  by (rule conjI [OF request_log_shape request_on_refresh_answer])

theorem request_renews_once_retries_once_witness:
  "(case request
         (\<lambda>w url cfg.
           (if url = ''/api/auth/refresh''
              then Response 200 (Some (JObj [(''data'', JObj [(''accessToken'', JStr ''new'')])]))
            else if map_of (cfg_headers cfg) ''Authorization'' = Some (Bearer (JStr ''new''))
              then Response 200 None
            else Response 401 None, Suc w))
         \<lparr>baseURL = ''/api'', accessToken = JStr ''old'', refreshToken = JStr ''r1'',
          localStorage = Map.empty\<rparr>
         (0::nat) ''/projects'' \<lparr>opt_method = None, opt_headers = None, opt_body = None\<rparr> of
         (out, c2, w2, tr) \<Rightarrow>
           out = Returned 200 None \<and> w2 = 3 \<and> accessToken c2 = JStr ''new''
           \<and> refreshToken c2 = JUndefined
           \<and> localStorage c2 ''accessToken'' = Some (JStr ''new'')
           \<and> localStorage c2 ''refreshToken'' = Some (JStr ''undefined'')
           \<and> map is_original tr = [True, False, False]
           \<and> map is_renewal tr = [False, True, False]
           \<and> map is_retry tr = [False, False, True])
   \<and> (case request (\<lambda>w url cfg. (Response 401 None, Suc w))
         \<lparr>baseURL = ''/api'', accessToken = JStr ''old'', refreshToken = JStr ''r1'',
          localStorage = [''accessToken'' \<mapsto> JStr ''old'', ''refreshToken'' \<mapsto> JStr ''r1'']\<rparr>
         (0::nat) ''/projects'' \<lparr>opt_method = None, opt_headers = None, opt_body = None\<rparr> of
         (out, c2, w2, tr) \<Rightarrow>
           out = Returned 401 None \<and> w2 = 2 \<and> accessToken c2 = JNull
           \<and> refreshToken c2 = JNull
           \<and> localStorage c2 ''accessToken'' = None
           \<and> localStorage c2 ''refreshToken'' = None
           \<and> map is_original tr = [True, False]
           \<and> map is_renewal tr = [False, True]
           \<and> map is_retry tr = [False, False])
   \<and> (case request (\<lambda>w url cfg. (if w = 1 then Rejected else Response 401 None, Suc w))
         \<lparr>baseURL = ''/api'', accessToken = JStr ''old'', refreshToken = JStr ''r1'',
          localStorage = [''accessToken'' \<mapsto> JStr ''old'', ''refreshToken'' \<mapsto> JStr ''r1'']\<rparr>
         (0::nat) ''/projects'' \<lparr>opt_method = None, opt_headers = None, opt_body = None\<rparr> of
         (out, c2, w2, tr) \<Rightarrow>
           out = Returned 401 None \<and> w2 = 2 \<and> accessToken c2 = JNull
           \<and> refreshToken c2 = JNull
           \<and> map is_retry tr = [False, False])"
  using request_renews_once_retries_once
    [of "\<lambda>w url cfg.
           (if url = ''/api/auth/refresh''
              then Response 200 (Some (JObj [(''data'', JObj [(''accessToken'', JStr ''new'')])]))
            else if map_of (cfg_headers cfg) ''Authorization'' = Some (Bearer (JStr ''new''))
              then Response 200 None
            else Response 401 None, Suc w)"
        "\<lparr>baseURL = ''/api'', accessToken = JStr ''old'', refreshToken = JStr ''r1'',
          localStorage = Map.empty\<rparr>"
        "0::nat" "''/projects''" "\<lparr>opt_method = None, opt_headers = None, opt_body = None\<rparr>"]
    request_renews_once_retries_once
    [of "\<lambda>w url cfg. (Response 401 None, Suc w)"
        "\<lparr>baseURL = ''/api'', accessToken = JStr ''old'', refreshToken = JStr ''r1'',
          localStorage = [''accessToken'' \<mapsto> JStr ''old'', ''refreshToken'' \<mapsto> JStr ''r1'']\<rparr>"
        "0::nat" "''/projects''" "\<lparr>opt_method = None, opt_headers = None, opt_body = None\<rparr>"]
    request_renews_once_retries_once
    [of "\<lambda>w url cfg. (if w = 1 then Rejected else Response 401 None, Suc w)"
        "\<lparr>baseURL = ''/api'', accessToken = JStr ''old'', refreshToken = JStr ''r1'',
          localStorage = [''accessToken'' \<mapsto> JStr ''old'', ''refreshToken'' \<mapsto> JStr ''r1'']\<rparr>"
        "0::nat" "''/projects''" "\<lparr>opt_method = None, opt_headers = None, opt_body = None\<rparr>"]
  by (simp add: request_def request_config_def renewToken_def setTokens_def clearTokens_def
        header_set_def set_header_def Let_def)

section \<open>Projects\<close>

lemma paginate_covers:
  assumes "x \<in> set xs" and "1 \<le> lim"
  shows "\<exists>n\<ge>1. x \<in> set (pg_items (paginate xs n lim))"
proof -
  from assms(1) obtain i where i: "i < length xs" and x: "xs ! i = x"
    by (auto simp: in_set_conv_nth)
  define l where "l = nat lim"
  have l: "0 < l" and liml: "lim = int l" using assms(2) by (auto simp: l_def)
  define k where "k = (i div l) * l"
  have ki: "k + i mod l = i" by (simp add: k_def)
  have skip: "nat ((int (i div l) + 1 - 1) * lim) = k"
    by (simp add: k_def liml nat_mult_distrib)
  have len: "i mod l < length (take l (drop k xs))"
    using i ki l by (simp add: min_def) arith
  have "take l (drop k xs) ! (i mod l) = xs ! (k + i mod l)"
    using l i ki by (simp add: nth_take)
  then have "x \<in> set (take l (drop k xs))"
    using len x ki by (metis nth_mem)
  then have "x \<in> set (pg_items (paginate xs (int (i div l) + 1) lim))"
    using skip by (simp add: paginate_def Let_def l_def)
  moreover have "1 \<le> int (i div l) + 1" by simp
  ultimately show ?thesis by blast
qed

lemma set_orderProjects: "set (orderProjects ps) = set ps"
  by (simp add: orderProjects_def)

lemma set_paginate: "set (pg_items (paginate xs n lim)) \<subseteq> set xs"
  by (auto simp: paginate_def Let_def dest: in_set_takeD in_set_dropD)

lemma deleteProject_keeps:
  "map p_id (snd (deleteProject ps now i)) = map p_id ps"
  by (auto simp: deleteProject_def split: option.splits)

lemma deleteProject_found:
  assumes "i \<in> p_id ` set ps"
  shows "deleteProject ps now i =
    (Done 200 (), map (\<lambda>p. if p_id p = i then p\<lparr>p_isActive := False, p_updatedAt := now\<rparr> else p) ps)"
proof (cases "find (\<lambda>p. p_id p = i) ps")
  case None
  then show ?thesis using assms by (auto simp: find_None_iff)
next
  case (Some y)
  then show ?thesis by (simp add: deleteProject_def)
qed

lemma deleteProject_inactive:
  assumes "i \<in> p_id ` set ps" and "x \<in> set (snd (deleteProject ps now i))" and "p_id x = i"
  shows "\<not> p_isActive x"
proof -
  let ?f = "\<lambda>p. if p_id p = i then p\<lparr>p_isActive := False, p_updatedAt := now\<rparr> else p"
  have "snd (deleteProject ps now i) = map ?f ps"
    using assms(1) by (simp add: deleteProject_found)
  with assms(2) obtain y where y: "y \<in> set ps" and x: "x = ?f y"
    by auto
  show ?thesis
  proof (cases "p_id y = i")
    case True
    with x show ?thesis by simp
  next
    case False
    with x have "p_id x \<noteq> i" by simp
    with assms(3) show ?thesis by simp
  qed
qed

lemma admin_page_exists:
  assumes "p \<in> set ps" and v: "validatePagination q = []" and m: "adminWhere q p"
  shows "\<exists>n\<ge>1. \<exists>pg. getAllProjectsAdmin ps (q\<lparr>q_page := Some n\<rparr>) = Done 200 pg
                       \<and> p \<in> set (pg_items pg)"
proof -
  have lim: "1 \<le> int_or (q_limit q) 10"
    using v by (auto simp: validatePagination_def int_or_def split: option.splits if_splits)
  have "p \<in> set (orderProjects (filter (adminWhere q) ps))"
    using assms(1) m by (simp add: set_orderProjects)
  from paginate_covers [OF this lim] obtain n where n: "1 \<le> n"
    and pn: "p \<in> set (pg_items (paginate (orderProjects (filter (adminWhere q) ps)) n (int_or (q_limit q) 10)))"
    by blast
  have v2: "validatePagination (q\<lparr>q_page := Some n\<rparr>) = []"
    using v n by (auto simp: validatePagination_def split: option.splits if_splits)
  have w2: "adminWhere (q\<lparr>q_page := Some n\<rparr>) = adminWhere q"
    by (auto simp: adminWhere_def search_of_def fun_eq_iff)
  have "int_or (Some n) 1 = n" using n by (simp add: int_or_def)
  then have "getAllProjectsAdmin ps (q\<lparr>q_page := Some n\<rparr>)
           = Done 200 (paginate (orderProjects (filter (adminWhere q) ps)) n (int_or (q_limit q) 10))"
    using v2 w2 by (simp add: getAllProjectsAdmin_def)
  with n pn show ?thesis by blast
qed

text \<open>
  C7. A stored project with \<open>isActive = false\<close> is on no page of \<open>GET /api/projects\<close>,
  whatever the query, and not in \<open>GET /api/projects/featured\<close>. The administrator
  listing does not look at \<open>isActive\<close>: without a search filter it counts every stored
  project, and the inactive project is on one of its pages, as it is under a search
  filter that its title or description matches. \<open>DELETE /api/projects/:id\<close>
  keeps every record; it answers 200 for a stored id, leaves the projects with that id
  inactive, and the public listing no longer shows them.
\<close>

theorem soft_deleted_projects_hidden:
  "(p \<in> set ps \<and> \<not> p_isActive p \<longrightarrow>
      (\<forall>q st pg. getProjects ps q = Done st pg \<longrightarrow> p \<notin> set (pg_items pg))
    \<and> (\<forall>st xs. getFeatured ps = Done st xs \<longrightarrow> p \<notin> set xs)
    \<and> (\<forall>q. validatePagination q = [] \<and> search_of q = [] \<longrightarrow>
          (\<exists>pg. getAllProjectsAdmin ps q = Done 200 pg \<and> pg_total pg = length ps)
        \<and> (\<exists>n\<ge>1. \<exists>pg. getAllProjectsAdmin ps (q\<lparr>q_page := Some n\<rparr>) = Done 200 pg
                       \<and> p \<in> set (pg_items pg)))
    \<and> (\<forall>q. validatePagination q = [] \<and> adminWhere q p \<longrightarrow>
          (\<exists>n\<ge>1. \<exists>pg. getAllProjectsAdmin ps (q\<lparr>q_page := Some n\<rparr>) = Done 200 pg
                       \<and> p \<in> set (pg_items pg))))
   \<and> map p_id (snd (deleteProject ps now i)) = map p_id ps
   \<and> (i \<in> p_id ` set ps \<longrightarrow>
        fst (deleteProject ps now i) = Done 200 ()
      \<and> (\<forall>x \<in> set (snd (deleteProject ps now i)). p_id x = i \<longrightarrow> \<not> p_isActive x)
      \<and> (\<forall>q st pg x. getProjects (snd (deleteProject ps now i)) q = Done st pg
            \<and> x \<in> set (pg_items pg) \<longrightarrow> p_id x \<noteq> i))"
proof (intro conjI impI allI)
  fix q st pg
  assume a: "p \<in> set ps \<and> \<not> p_isActive p" and g: "getProjects ps q = Done st pg"
  from g have "set (pg_items pg) \<subseteq> set (filter (publicWhere q) ps)"
    using set_paginate [of "orderProjects (filter (publicWhere q) ps)"]
    by (auto simp: getProjects_def set_orderProjects split: list.splits)
  then show "p \<notin> set (pg_items pg)" using a by (auto simp: publicWhere_def)
next
  fix st xs
  assume a: "p \<in> set ps \<and> \<not> p_isActive p" and g: "getFeatured ps = Done st xs"
  then show "p \<notin> set xs" by (auto simp: getFeatured_def orderFeatured_def)
next
  fix q
  assume a: "p \<in> set ps \<and> \<not> p_isActive p" and v: "validatePagination q = [] \<and> search_of q = []"
  then show "\<exists>pg. getAllProjectsAdmin ps q = Done 200 pg \<and> pg_total pg = length ps"
    by (simp add: getAllProjectsAdmin_def adminWhere_def paginate_def Let_def orderProjects_def)
next
  fix q
  assume a: "p \<in> set ps \<and> \<not> p_isActive p" and v: "validatePagination q = [] \<and> search_of q = []"
  then have "adminWhere q p" by (simp add: adminWhere_def)
  with a v show "\<exists>n\<ge>1. \<exists>pg. getAllProjectsAdmin ps (q\<lparr>q_page := Some n\<rparr>) = Done 200 pg
                       \<and> p \<in> set (pg_items pg)"
    using admin_page_exists [of p ps q] by blast
next
  fix q
  assume a: "p \<in> set ps \<and> \<not> p_isActive p" and v: "validatePagination q = [] \<and> adminWhere q p"
  then show "\<exists>n\<ge>1. \<exists>pg. getAllProjectsAdmin ps (q\<lparr>q_page := Some n\<rparr>) = Done 200 pg
                       \<and> p \<in> set (pg_items pg)"
    using admin_page_exists [of p ps q] by blast
next
  show "map p_id (snd (deleteProject ps now i)) = map p_id ps" by (rule deleteProject_keeps)
next
  assume "i \<in> p_id ` set ps"
  then show "fst (deleteProject ps now i) = Done 200 ()"
    by (simp add: deleteProject_found)
next
  assume "i \<in> p_id ` set ps"
  then show "\<forall>x \<in> set (snd (deleteProject ps now i)). p_id x = i \<longrightarrow> \<not> p_isActive x"
    using deleteProject_inactive [of i ps _ now] by blast
next
  fix q st pg x
  assume m: "i \<in> p_id ` set ps"
    and g: "getProjects (snd (deleteProject ps now i)) q = Done st pg \<and> x \<in> set (pg_items pg)"
  from g have "x \<in> set (filter (publicWhere q) (snd (deleteProject ps now i)))"
    using set_paginate [of "orderProjects (filter (publicWhere q) (snd (deleteProject ps now i)))"]
    by (auto simp: getProjects_def set_orderProjects split: list.splits)
  then have "x \<in> set (snd (deleteProject ps now i))" and "p_isActive x"
    by (auto simp: publicWhere_def)
  then show "p_id x \<noteq> i" using m deleteProject_inactive [of i ps x now]
    by blast
qed


theorem soft_deleted_projects_hidden_witness:
  "\<lparr>p_id = 2, p_title = ''Viejo'', p_description = ''Proyecto retirado'', p_videoUrl = None,
     p_videoTitle = None, p_repositoryUrl = None, p_technologies = [''Java''],
     p_isFeatured = True, p_isActive = False, p_order = 0, p_authorId = 1,
     p_createdAt = 5, p_updatedAt = 9\<rparr>
   \<in> set [\<lparr>p_id = 1, p_title = ''Portfolio'', p_description = ''Sitio personal'',
             p_videoUrl = None, p_videoTitle = None, p_repositoryUrl = None,
             p_technologies = [''Express''], p_isFeatured = False, p_isActive = True,
             p_order = 0, p_authorId = 1, p_createdAt = 3, p_updatedAt = 3\<rparr>,
            \<lparr>p_id = 2, p_title = ''Viejo'', p_description = ''Proyecto retirado'',
             p_videoUrl = None, p_videoTitle = None, p_repositoryUrl = None,
             p_technologies = [''Java''], p_isFeatured = True, p_isActive = False,
             p_order = 0, p_authorId = 1, p_createdAt = 5, p_updatedAt = 9\<rparr>]
   \<and> getProjects
        [\<lparr>p_id = 1, p_title = ''Portfolio'', p_description = ''Sitio personal'',
          p_videoUrl = None, p_videoTitle = None, p_repositoryUrl = None,
          p_technologies = [''Express''], p_isFeatured = False, p_isActive = True,
          p_order = 0, p_authorId = 1, p_createdAt = 3, p_updatedAt = 3\<rparr>,
         \<lparr>p_id = 2, p_title = ''Viejo'', p_description = ''Proyecto retirado'',
          p_videoUrl = None, p_videoTitle = None, p_repositoryUrl = None,
          p_technologies = [''Java''], p_isFeatured = True, p_isActive = False,
          p_order = 0, p_authorId = 1, p_createdAt = 5, p_updatedAt = 9\<rparr>]
        \<lparr>q_page = None, q_limit = None, q_search = None, q_featured = None\<rparr>
     = Done 200
        \<lparr>pg_items = [\<lparr>p_id = 1, p_title = ''Portfolio'', p_description = ''Sitio personal'',
            p_videoUrl = None, p_videoTitle = None, p_repositoryUrl = None,
            p_technologies = [''Express''], p_isFeatured = False, p_isActive = True,
            p_order = 0, p_authorId = 1, p_createdAt = 3, p_updatedAt = 3\<rparr>],
         pg_page = 1, pg_limit = 10, pg_total = 1, pg_totalPages = 1,
         pg_hasNext = False, pg_hasPrev = False\<rparr>
   \<and> getFeatured
        [\<lparr>p_id = 1, p_title = ''Portfolio'', p_description = ''Sitio personal'',
          p_videoUrl = None, p_videoTitle = None, p_repositoryUrl = None,
          p_technologies = [''Express''], p_isFeatured = False, p_isActive = True,
          p_order = 0, p_authorId = 1, p_createdAt = 3, p_updatedAt = 3\<rparr>,
         \<lparr>p_id = 2, p_title = ''Viejo'', p_description = ''Proyecto retirado'',
          p_videoUrl = None, p_videoTitle = None, p_repositoryUrl = None,
          p_technologies = [''Java''], p_isFeatured = True, p_isActive = False,
          p_order = 0, p_authorId = 1, p_createdAt = 5, p_updatedAt = 9\<rparr>]
     = Done 200 []
   \<and> getAllProjectsAdmin
        [\<lparr>p_id = 1, p_title = ''Portfolio'', p_description = ''Sitio personal'',
          p_videoUrl = None, p_videoTitle = None, p_repositoryUrl = None,
          p_technologies = [''Express''], p_isFeatured = False, p_isActive = True,
          p_order = 0, p_authorId = 1, p_createdAt = 3, p_updatedAt = 3\<rparr>,
         \<lparr>p_id = 2, p_title = ''Viejo'', p_description = ''Proyecto retirado'',
          p_videoUrl = None, p_videoTitle = None, p_repositoryUrl = None,
          p_technologies = [''Java''], p_isFeatured = True, p_isActive = False,
          p_order = 0, p_authorId = 1, p_createdAt = 5, p_updatedAt = 9\<rparr>]
        \<lparr>q_page = None, q_limit = None, q_search = None, q_featured = None\<rparr>
     = Done 200
        \<lparr>pg_items = [\<lparr>p_id = 2, p_title = ''Viejo'', p_description = ''Proyecto retirado'',
            p_videoUrl = None, p_videoTitle = None, p_repositoryUrl = None,
            p_technologies = [''Java''], p_isFeatured = True, p_isActive = False,
            p_order = 0, p_authorId = 1, p_createdAt = 5, p_updatedAt = 9\<rparr>,
           \<lparr>p_id = 1, p_title = ''Portfolio'', p_description = ''Sitio personal'',
            p_videoUrl = None, p_videoTitle = None, p_repositoryUrl = None,
            p_technologies = [''Express''], p_isFeatured = False, p_isActive = True,
            p_order = 0, p_authorId = 1, p_createdAt = 3, p_updatedAt = 3\<rparr>],
         pg_page = 1, pg_limit = 10, pg_total = 2, pg_totalPages = 1,
         pg_hasNext = False, pg_hasPrev = False\<rparr>
   \<and> deleteProject
        [\<lparr>p_id = 1, p_title = ''Portfolio'', p_description = ''Sitio personal'',
          p_videoUrl = None, p_videoTitle = None, p_repositoryUrl = None,
          p_technologies = [''Express''], p_isFeatured = False, p_isActive = True,
          p_order = 0, p_authorId = 1, p_createdAt = 3, p_updatedAt = 3\<rparr>] 8 1
     = (Done 200 (),
        [\<lparr>p_id = 1, p_title = ''Portfolio'', p_description = ''Sitio personal'',
          p_videoUrl = None, p_videoTitle = None, p_repositoryUrl = None,
          p_technologies = [''Express''], p_isFeatured = False, p_isActive = False,
          p_order = 0, p_authorId = 1, p_createdAt = 3, p_updatedAt = 8\<rparr>])"
  using soft_deleted_projects_hidden
    [of "\<lparr>p_id = 2, p_title = ''Viejo'', p_description = ''Proyecto retirado'', p_videoUrl = None,
     p_videoTitle = None, p_repositoryUrl = None, p_technologies = [''Java''],
     p_isFeatured = True, p_isActive = False, p_order = 0, p_authorId = 1,
     p_createdAt = 5, p_updatedAt = 9\<rparr>"
     "[\<lparr>p_id = 1, p_title = ''Portfolio'', p_description = ''Sitio personal'',
             p_videoUrl = None, p_videoTitle = None, p_repositoryUrl = None,
             p_technologies = [''Express''], p_isFeatured = False, p_isActive = True,
             p_order = 0, p_authorId = 1, p_createdAt = 3, p_updatedAt = 3\<rparr>,
            \<lparr>p_id = 2, p_title = ''Viejo'', p_description = ''Proyecto retirado'',
             p_videoUrl = None, p_videoTitle = None, p_repositoryUrl = None,
             p_technologies = [''Java''], p_isFeatured = True, p_isActive = False,
             p_order = 0, p_authorId = 1, p_createdAt = 5, p_updatedAt = 9\<rparr>]" 8 1]
  by (simp add: getProjects_def getFeatured_def getAllProjectsAdmin_def deleteProject_def
        validatePagination_def publicWhere_def adminWhere_def search_of_def int_or_def
        paginate_def orderProjects_def orderFeatured_def Let_def)

section \<open>Contacts\<close>

lemma length_trim_le: "length (trim s) \<le> length s"
proof -
  have "length (trim s) \<le> length (dropWhile is_space s)"
    unfolding trim_def using length_dropWhile_le [of is_space "rev (dropWhile is_space s)"] by simp
  also have "\<dots> \<le> length s" by (rule length_dropWhile_le)
  finally show ?thesis .
qed

text \<open>
  C8, as the code has it. A \<open>POST /api/contacts\<close> whose message has fewer than 10
  characters is answered 400, with the message field among the details, and stores
  nothing. With the other fields valid, the request succeeds exactly when the message,
  after trimming the white space at its ends, has between 10 and 2000 characters: then
  the answer is 201 and the stored contact has status PENDING and the trimmed message;
  otherwise it is 400 with the message field as the only detail.
\<close>

theorem contact_message_length_checked:
  "(length (str_of (b_message b)) < 10 \<longrightarrow>
      (\<exists>details. createContact isEmail normalizeEmail db now b = (Invalid details, db)
                 \<and> ''message'' \<in> ve_field ` set details)
      \<and> reply_status (fst (createContact isEmail normalizeEmail db now b)) = 400)
   \<and> (2 \<le> length (trim (str_of (b_name b))) \<and> length (trim (str_of (b_name b))) \<le> 100
      \<and> isEmail (str_of (b_email b))
      \<and> (\<forall>s. b_subject b = Some s \<longrightarrow> length (trim s) \<le> 200) \<longrightarrow>
        (if 10 \<le> length (trim (str_of (b_message b)))
            \<and> length (trim (str_of (b_message b))) \<le> 2000
         then \<exists>c. createContact isEmail normalizeEmail db now b
                    = (Done 201 c, db\<lparr>contacts := contacts db @ [c],
                                       ct_nextId := Suc (ct_nextId db)\<rparr>)
                  \<and> ct_status c = ''PENDING''
                  \<and> ct_message c = trim (str_of (b_message b))
         else createContact isEmail normalizeEmail db now b
                = (Invalid [\<lparr>ve_field = ''message'',
                             ve_message = ''El mensaje debe tener entre 10 y 2000 caracteres''\<rparr>], db)))"
proof (intro conjI impI)
  assume short: "length (str_of (b_message b)) < 10"
  have t: "\<not> 10 \<le> length (trim (str_of (b_message b)))"
    using short length_trim_le [of "str_of (b_message b)"] by simp
  define pre where "pre = (if 2 \<le> length (trim (str_of (b_name b))) \<and> length (trim (str_of (b_name b))) \<le> 100 then []
      else [\<lparr>ve_field = ''name'',
             ve_message = ''El nombre debe tener entre 2 y 100 caracteres''\<rparr>])
     @ (if isEmail (str_of (b_email b)) then []
        else [\<lparr>ve_field = ''email'', ve_message = ''Debe proporcionar un email valido''\<rparr>])
     @ (case b_subject b of
          None \<Rightarrow> []
        | Some s \<Rightarrow> if length (trim s) \<le> 200 then []
                    else [\<lparr>ve_field = ''subject'',
                           ve_message = ''El asunto no puede exceder 200 caracteres''\<rparr>])"
  have v: "validateContact isEmail b = pre @ [\<lparr>ve_field = ''message'',
               ve_message = ''El mensaje debe tener entre 10 y 2000 caracteres''\<rparr>]"
    using t unfolding validateContact_def pre_def by simp
  have c: "createContact isEmail normalizeEmail db now b = (Invalid (validateContact isEmail b), db)"
    unfolding createContact_def v by (cases pre) simp_all
  show "\<exists>details. createContact isEmail normalizeEmail db now b = (Invalid details, db)
                 \<and> ''message'' \<in> ve_field ` set details"
    unfolding c v by (intro exI conjI, rule refl) (simp add: image_iff)
  show "reply_status (fst (createContact isEmail normalizeEmail db now b)) = 400"
    unfolding c by simp
next
  assume ok: "2 \<le> length (trim (str_of (b_name b))) \<and> length (trim (str_of (b_name b))) \<le> 100
      \<and> isEmail (str_of (b_email b))
      \<and> (\<forall>s. b_subject b = Some s \<longrightarrow> length (trim s) \<le> 200)"
  then have sub: "(case b_subject b of
          None \<Rightarrow> []
        | Some s \<Rightarrow> if length (trim s) \<le> 200 then []
                    else [\<lparr>ve_field = ''subject'',
                           ve_message = ''El asunto no puede exceder 200 caracteres''\<rparr>]) = []"
    by (simp split: option.splits)
  have v: "validateContact isEmail b =
      (if 10 \<le> length (trim (str_of (b_message b)))
            \<and> length (trim (str_of (b_message b))) \<le> 2000 then []
        else [\<lparr>ve_field = ''message'',
               ve_message = ''El mensaje debe tener entre 10 y 2000 caracteres''\<rparr>])"
    unfolding validateContact_def sub using ok by simp
  show "if 10 \<le> length (trim (str_of (b_message b)))
            \<and> length (trim (str_of (b_message b))) \<le> 2000
         then \<exists>c. createContact isEmail normalizeEmail db now b
                    = (Done 201 c, db\<lparr>contacts := contacts db @ [c],
                                       ct_nextId := Suc (ct_nextId db)\<rparr>)
                  \<and> ct_status c = ''PENDING''
                  \<and> ct_message c = trim (str_of (b_message b))
         else createContact isEmail normalizeEmail db now b
                = (Invalid [\<lparr>ve_field = ''message'',
                             ve_message = ''El mensaje debe tener entre 10 y 2000 caracteres''\<rparr>], db)"
    unfolding createContact_def v by (simp add: Let_def)
qed

text \<open>
  A message of length 10 that is not accepted: four letters and six spaces, with a valid
  name and e-mail.
\<close>

theorem padded_message_counterexample:
  "length ''hola      '' = 10
   \<and> createContact (\<lambda>s. CHR ''@'' \<in> set s) (\<lambda>s. s) \<lparr>contacts = [], ct_nextId = 1\<rparr> 0
       \<lparr>b_name = Some ''Ana'', b_email = Some ''ana@x.com'', b_subject = None,
        b_message = Some ''hola      '', b_phone = None\<rparr>
     = (Invalid [\<lparr>ve_field = ''message'',
                  ve_message = ''El mensaje debe tener entre 10 y 2000 caracteres''\<rparr>],
        \<lparr>contacts = [], ct_nextId = 1\<rparr>)"
  by (simp add: createContact_def validateContact_def trim_def is_space_def str_of_def)

theorem contact_message_length_checked_witness:
  "length (str_of (Some ''hola'')) < 10
   \<and> reply_status (fst (createContact (\<lambda>s. CHR ''@'' \<in> set s) (\<lambda>s. s)
        \<lparr>contacts = [], ct_nextId = 1\<rparr> 0
        \<lparr>b_name = Some ''Ana'', b_email = Some ''ana@x.com'', b_subject = None,
         b_message = Some ''hola'', b_phone = None\<rparr>)) = 400
   \<and> fst (createContact (\<lambda>s. CHR ''@'' \<in> set s) (\<lambda>s. s)
        \<lparr>contacts = [], ct_nextId = 1\<rparr> 0
        \<lparr>b_name = Some ''Ana'', b_email = Some ''ana@x.com'', b_subject = None,
         b_message = Some ''  me gustaria hablar de un proyecto  '', b_phone = None\<rparr>)
     = Done 201 \<lparr>ct_id = 1, ct_name = ''Ana'', ct_email = ''ana@x.com'', ct_subject = None,
                 ct_message = ''me gustaria hablar de un proyecto'', ct_phone = None,
                 ct_status = ''PENDING'', ct_adminNotes = None, ct_respondedAt = None,
                 ct_createdAt = 0, ct_updatedAt = 0\<rparr>
   \<and> length (''hola'' @ [CHR 0xA0, CHR 0xA0, CHR 0xA0, CHR 0xA0, CHR 0xA0, CHR 0xA0]) = 10
   \<and> createContact (\<lambda>s. CHR ''@'' \<in> set s) (\<lambda>s. s)
        \<lparr>contacts = [], ct_nextId = 1\<rparr> 0
        \<lparr>b_name = Some ''Ana'', b_email = Some ''ana@x.com'', b_subject = None,
         b_message = Some (''hola'' @ [CHR 0xA0, CHR 0xA0, CHR 0xA0, CHR 0xA0, CHR 0xA0, CHR 0xA0]), b_phone = None\<rparr>
     = (Invalid [\<lparr>ve_field = ''message'',
                  ve_message = ''El mensaje debe tener entre 10 y 2000 caracteres''\<rparr>],
        \<lparr>contacts = [], ct_nextId = 1\<rparr>)"
  using contact_message_length_checked
    [of "\<lparr>b_name = Some ''Ana'', b_email = Some ''ana@x.com'', b_subject = None,
         b_message = Some ''hola'', b_phone = None\<rparr>"
        "\<lambda>s. CHR ''@'' \<in> set s" "\<lambda>s. s" "\<lparr>contacts = [], ct_nextId = 1\<rparr>" 0]
    contact_message_length_checked
    [of "\<lparr>b_name = Some ''Ana'', b_email = Some ''ana@x.com'', b_subject = None,
         b_message = Some ''  me gustaria hablar de un proyecto  '', b_phone = None\<rparr>"
        "\<lambda>s. CHR ''@'' \<in> set s" "\<lambda>s. s" "\<lparr>contacts = [], ct_nextId = 1\<rparr>" 0]
    contact_message_length_checked
    [of "\<lparr>b_name = Some ''Ana'', b_email = Some ''ana@x.com'', b_subject = None,
         b_message = Some (''hola'' @ [CHR 0xA0, CHR 0xA0, CHR 0xA0, CHR 0xA0, CHR 0xA0, CHR 0xA0]), b_phone = None\<rparr>"
        "\<lambda>s. CHR ''@'' \<in> set s" "\<lambda>s. s" "\<lparr>contacts = [], ct_nextId = 1\<rparr>" 0]
  by (simp add: createContact_def validateContact_def trim_def is_space_def str_of_def Let_def)

lemma find_map_same_id:
  assumes "\<And>c. ct_id (g c) = ct_id c"
  shows "find (\<lambda>c. ct_id c = j) (map g cs) = map_option g (find (\<lambda>c. ct_id c = j) cs)"
  using assms by (induction cs) auto

lemma find_append_one:
  "find P (xs @ [y]) = (case find P xs of Some x \<Rightarrow> Some x | None \<Rightarrow> if P y then Some y else None)"
  by (induction xs) auto

lemma find_filter_other:
  "find (\<lambda>c. ct_id c = j) (filter (\<lambda>c. ct_id c \<noteq> i) cs)
     = (if j = i then None else find (\<lambda>c. ct_id c = j) cs)"
  by (induction cs) auto

lemma validateUpdateContact_excludes_RESPONDED:
  "validateUpdateContact b = [] \<Longrightarrow> ub_status b \<noteq> Some ''RESPONDED''"
  by (auto simp: validateUpdateContact_def split: option.splits if_splits)

lemma putContact_respondedAt:
  "respondedAt_of (snd (putContact db now i b)) j = respondedAt_of db j"
proof (cases "validateUpdateContact b")
  case (Cons e es)
  then show ?thesis by (simp add: putContact_def)
next
  case Nil
  note st = validateUpdateContact_excludes_RESPONDED [OF Nil]
  show ?thesis
  proof (cases "findContact db i")
    case None
    with Nil show ?thesis by (simp add: putContact_def)
  next
    case (Some existing)
    define g where "g = (\<lambda>c::contact. if ct_id c = i
      then (case ub_adminNotes b of None \<Rightarrow> (\<lambda>c. c) | Some n \<Rightarrow> (\<lambda>c. c\<lparr>ct_adminNotes := Some n\<rparr>))
             ((case ub_status b of None \<Rightarrow> (\<lambda>c. c)
               | Some s \<Rightarrow> (\<lambda>c. if s = [] then c else c\<lparr>ct_status := s\<rparr>))
                (c\<lparr>ct_updatedAt := now\<rparr>))
      else c)"
    have id: "\<And>c. ct_id (g c) = ct_id c" and ra: "\<And>c. ct_respondedAt (g c) = ct_respondedAt c"
      by (auto simp: g_def split: option.splits)
    have "snd (putContact db now i b) = db\<lparr>contacts := map g (contacts db)\<rparr>"
      using Nil Some st
      by (auto simp: putContact_def updateContact_def Let_def g_def split: option.splits
               intro!: map_cong)
    then show ?thesis
      using find_map_same_id [of g j "contacts db", OF id] ra
      by (cases "find (\<lambda>c. ct_id c = j) (contacts db)")
         (simp_all add: respondedAt_of_def findContact_def)
  qed
qed

lemma putContact_keeps_respondedAt:
  "map ct_respondedAt (contacts (snd (putContact db now i b))) = map ct_respondedAt (contacts db)"
proof (cases "validateUpdateContact b")
  case (Cons e es)
  then show ?thesis by (simp add: putContact_def)
next
  case Nil
  note st = validateUpdateContact_excludes_RESPONDED [OF Nil]
  show ?thesis
    using Nil st
    by (auto simp: putContact_def updateContact_def Let_def split: option.splits)
qed

lemma createContact_respondedAt:
  assumes "respondedAt_of (snd (createContact isEmail normalizeEmail db now b)) j = Some (Some t)"
  shows "respondedAt_of db j = Some (Some t)"
proof (cases "validateContact isEmail b")
  case (Cons e es)
  with assms show ?thesis by (simp add: createContact_def)
next
  case Nil
  with assms show ?thesis
    by (auto simp: createContact_def Let_def respondedAt_of_def findContact_def find_append_one
             split: option.splits if_splits)
qed

lemma deleteContact_respondedAt:
  assumes "respondedAt_of (snd (deleteContact db i)) j = Some (Some t)"
  shows "respondedAt_of db j = Some (Some t)"
  using assms
  by (cases "findContact db i")
     (auto simp: deleteContact_def respondedAt_of_def findContact_def find_filter_other
           split: if_splits)

lemma patchContactStatus_respondedAt:
  assumes "respondedAt_of (snd (patchContactStatus db now i st)) j = Some (Some t)"
    and "respondedAt_of db j \<noteq> Some (Some t)"
  shows "t = now \<and> j = i \<and> st = Some ''RESPONDED''"
proof (cases "str_of st = [] \<or> str_of st \<notin> set [''PENDING'', ''IN_PROGRESS'', ''RESPONDED'', ''ARCHIVED'']")
  case True
  with assms show ?thesis by (auto simp: patchContactStatus_def split: if_splits)
next
  case valid: False
  show ?thesis
  proof (cases "findContact db i")
    case None
    with assms valid show ?thesis by (auto simp: patchContactStatus_def split: if_splits)
  next
    case (Some existing)
    define f where "f = (\<lambda>c::contact. if str_of st = ''RESPONDED'' \<and> ct_status existing \<noteq> ''RESPONDED''
                      then c\<lparr>ct_status := str_of st, ct_updatedAt := now,
                             ct_respondedAt := Some now\<rparr>
                    else c\<lparr>ct_status := str_of st, ct_updatedAt := now\<rparr>)"
    define g where "g = (\<lambda>c::contact. if ct_id c = i then f c else c)"
    have id: "\<And>c. ct_id (g c) = ct_id c" by (simp add: g_def f_def)
    have db': "snd (patchContactStatus db now i st) = db\<lparr>contacts := map g (contacts db)\<rparr>"
      using valid Some
      by (simp add: patchContactStatus_def updateContact_def Let_def g_def f_def)
    obtain c where c: "find (\<lambda>c. ct_id c = j) (contacts db) = Some c"
      and gc: "ct_respondedAt (g c) = Some t" and nc: "ct_respondedAt c \<noteq> Some t"
      using assms find_map_same_id [of g j "contacts db", OF id] db'
      by (cases "find (\<lambda>c. ct_id c = j) (contacts db)")
         (auto simp: respondedAt_of_def findContact_def)
    from c have cj: "ct_id c = j" by (auto simp: find_Some_iff)
    from gc nc cj have "j = i \<and> str_of st = ''RESPONDED'' \<and> t = now"
      by (auto simp: g_def f_def split: if_splits)
    then show ?thesis by (cases st) (auto simp: str_of_def)
  qed
qed

lemma bulkUpdateContacts_respondedAt:
  assumes "respondedAt_of (snd (bulkUpdateContacts db now ids st notes)) j = Some (Some t)"
    and "respondedAt_of db j \<noteq> Some (Some t)"
  shows "t = now \<and> st = Some ''RESPONDED'' \<and> (\<exists>xs. ids = Some xs \<and> j \<in> set xs)"
proof (cases ids)
  case None
  with assms show ?thesis by (simp add: bulkUpdateContacts_def)
next
  case (Some xs)
  show ?thesis
  proof (cases "xs = [] \<or> str_of st = []
       \<or> str_of st \<notin> set [''PENDING'', ''IN_PROGRESS'', ''RESPONDED'', ''ARCHIVED'']")
    case True
    with assms Some show ?thesis by (auto simp: bulkUpdateContacts_def split: if_splits)
  next
    case valid: False
    define f where "f = (\<lambda>c::contact. (if str_of notes \<noteq> [] then (\<lambda>c. c\<lparr>ct_adminNotes := notes\<rparr>) else (\<lambda>c. c))
          ((if str_of st = ''RESPONDED'' then (\<lambda>c. c\<lparr>ct_respondedAt := Some now\<rparr>) else (\<lambda>c. c))
             (c\<lparr>ct_status := str_of st, ct_updatedAt := now\<rparr>)))"
    define g where "g = (\<lambda>c::contact. if ct_id c \<in> set xs then f c else c)"
    have id: "\<And>c. ct_id (g c) = ct_id c" by (simp add: g_def f_def)
    have db': "snd (bulkUpdateContacts db now ids st notes) = db\<lparr>contacts := map g (contacts db)\<rparr>"
      using valid Some
      by (auto simp: bulkUpdateContacts_def Let_def g_def f_def intro!: map_cong)
    obtain c where c: "find (\<lambda>c. ct_id c = j) (contacts db) = Some c"
      and gc: "ct_respondedAt (g c) = Some t" and nc: "ct_respondedAt c \<noteq> Some t"
      using assms find_map_same_id [of g j "contacts db", OF id] db'
      by (cases "find (\<lambda>c. ct_id c = j) (contacts db)")
         (auto simp: respondedAt_of_def findContact_def)
    from c have cj: "ct_id c = j" by (auto simp: find_Some_iff)
    from gc nc cj have "j \<in> set xs \<and> str_of st = ''RESPONDED'' \<and> t = now"
      by (auto simp: g_def f_def split: if_splits)
    then show ?thesis using Some by (cases st) (auto simp: str_of_def)
  qed
qed

text \<open>
  C10, as the code has it. A body that passes \<open>validateUpdateContact\<close> does not have
  status RESPONDED, so \<open>PUT /api/contacts/:id\<close> leaves every \<open>respondedAt\<close> as it
  was. RESPONDED and ARCHIVED are refused by that validator and accepted by
  \<open>PATCH /api/contacts/:id/status\<close>. Among the requests that write contacts, the only
  ones that give a stored contact a \<open>respondedAt\<close> it did not have are the status patch
  of that contact to RESPONDED and a bulk update to RESPONDED that lists it; the value
  is the time of the request.
\<close>

theorem respondedAt_set_by_status_routes_only:
  "(validateUpdateContact b = [] \<longrightarrow> ub_status b \<noteq> Some ''RESPONDED'')
   \<and> map ct_respondedAt (contacts (snd (putContact db now i b))) = map ct_respondedAt (contacts db)
   \<and> (s \<in> set [''RESPONDED'', ''ARCHIVED''] \<longrightarrow>
        validateUpdateContact (b\<lparr>ub_status := Some s\<rparr>) \<noteq> []
        \<and> reply_status (fst (patchContactStatus db now i (Some s)))
            = (if findContact db i = None then 404 else 200))
   \<and> (respondedAt_of (snd (contact_route isEmail normalizeEmail db now req)) j = Some (Some t)
      \<and> respondedAt_of db j \<noteq> Some (Some t) \<longrightarrow>
        t = now
        \<and> (req = PatchStatus j (Some ''RESPONDED'')
           \<or> (\<exists>ids notes. req = BulkUpdate (Some ids) (Some ''RESPONDED'') notes \<and> j \<in> set ids)))"
proof (intro conjI impI)
  assume "validateUpdateContact b = []"
  then show "ub_status b \<noteq> Some ''RESPONDED''" by (rule validateUpdateContact_excludes_RESPONDED)
next
  show "map ct_respondedAt (contacts (snd (putContact db now i b))) = map ct_respondedAt (contacts db)"
    by (rule putContact_keeps_respondedAt)
next
  assume "s \<in> set [''RESPONDED'', ''ARCHIVED'']"
  then show "validateUpdateContact (b\<lparr>ub_status := Some s\<rparr>) \<noteq> []"
    by (auto simp: validateUpdateContact_def)
next
  assume "s \<in> set [''RESPONDED'', ''ARCHIVED'']"
  then show "reply_status (fst (patchContactStatus db now i (Some s)))
            = (if findContact db i = None then 404 else 200)"
    by (auto simp: patchContactStatus_def str_of_def Let_def split: option.splits)
next
  assume a: "respondedAt_of (snd (contact_route isEmail normalizeEmail db now req)) j = Some (Some t)
      \<and> respondedAt_of db j \<noteq> Some (Some t)"
  show "t = now"
  proof (cases req)
    case (PostContact x)
    with a createContact_respondedAt [of isEmail normalizeEmail db now x j t] show ?thesis
      by (simp add: contact_route_def split: prod.splits)
  next
    case (PutContact x y)
    with a putContact_respondedAt [of db now x y j] show ?thesis
      by (simp add: contact_route_def split: prod.splits)
  next
    case (PatchStatus x y)
    with a patchContactStatus_respondedAt [of db now x y j t] show ?thesis
      by (simp add: contact_route_def split: prod.splits)
  next
    case (BulkUpdate x y z)
    with a bulkUpdateContacts_respondedAt [of db now x y z j t] show ?thesis
      by (simp add: contact_route_def split: prod.splits)
  next
    case (DeleteContact x)
    with a deleteContact_respondedAt [of db x j t] show ?thesis
      by (simp add: contact_route_def split: prod.splits)
  qed
next
  assume a: "respondedAt_of (snd (contact_route isEmail normalizeEmail db now req)) j = Some (Some t)
      \<and> respondedAt_of db j \<noteq> Some (Some t)"
  show "req = PatchStatus j (Some ''RESPONDED'')
           \<or> (\<exists>ids notes. req = BulkUpdate (Some ids) (Some ''RESPONDED'') notes \<and> j \<in> set ids)"
  proof (cases req)
    case (PostContact x)
    with a createContact_respondedAt [of isEmail normalizeEmail db now x j t] show ?thesis
      by (simp add: contact_route_def split: prod.splits)
  next
    case (PutContact x y)
    with a putContact_respondedAt [of db now x y j] show ?thesis
      by (simp add: contact_route_def split: prod.splits)
  next
    case (PatchStatus x y)
    with a patchContactStatus_respondedAt [of db now x y j t] show ?thesis
      by (simp add: contact_route_def split: prod.splits)
  next
    case (BulkUpdate x y z)
    with a bulkUpdateContacts_respondedAt [of db now x y z j t] show ?thesis
      by (auto simp: contact_route_def split: prod.splits)
  next
    case (DeleteContact x)
    with a deleteContact_respondedAt [of db x j t] show ?thesis
      by (simp add: contact_route_def split: prod.splits)
  qed
qed

theorem respondedAt_set_by_status_routes_only_witness:
  "respondedAt_of (snd (contact_route (\<lambda>s. CHR ''@'' \<in> set s) (\<lambda>s. s)
       \<lparr>contacts = [\<lparr>ct_id = 1, ct_name = ''Ana'', ct_email = ''ana@x.com'',
          ct_subject = None, ct_message = ''me gustaria hablar'', ct_phone = None,
          ct_status = ''PENDING'', ct_adminNotes = None, ct_respondedAt = None,
          ct_createdAt = 0, ct_updatedAt = 0\<rparr>], ct_nextId = 2\<rparr>
       7 (PatchStatus 1 (Some ''RESPONDED'')))) 1 = Some (Some 7)
   \<and> respondedAt_of
       \<lparr>contacts = [\<lparr>ct_id = 1, ct_name = ''Ana'', ct_email = ''ana@x.com'',
          ct_subject = None, ct_message = ''me gustaria hablar'', ct_phone = None,
          ct_status = ''PENDING'', ct_adminNotes = None, ct_respondedAt = None,
          ct_createdAt = 0, ct_updatedAt = 0\<rparr>], ct_nextId = 2\<rparr> 1 \<noteq> Some (Some 7)
   \<and> validateUpdateContact \<lparr>ub_status = Some ''RESOLVED'', ub_adminNotes = None, ub_isRead = None\<rparr> = []
   \<and> validateUpdateContact \<lparr>ub_status = Some ''RESPONDED'', ub_adminNotes = None, ub_isRead = None\<rparr> \<noteq> []
   \<and> ''RESPONDED'' \<in> set [''RESPONDED'', ''ARCHIVED'']
   \<and> putContact
       \<lparr>contacts = [\<lparr>ct_id = 1, ct_name = ''Ana'', ct_email = ''ana@x.com'',
          ct_subject = None, ct_message = ''me gustaria hablar'', ct_phone = None,
          ct_status = ''PENDING'', ct_adminNotes = None, ct_respondedAt = None,
          ct_createdAt = 0, ct_updatedAt = 0\<rparr>], ct_nextId = 2\<rparr>
       7 1 \<lparr>ub_status = Some ''RESOLVED'', ub_adminNotes = None, ub_isRead = None\<rparr>
     = (Done 200 \<lparr>ct_id = 1, ct_name = ''Ana'', ct_email = ''ana@x.com'',
          ct_subject = None, ct_message = ''me gustaria hablar'', ct_phone = None,
          ct_status = ''RESOLVED'', ct_adminNotes = None, ct_respondedAt = None,
          ct_createdAt = 0, ct_updatedAt = 7\<rparr>,
        \<lparr>contacts = [\<lparr>ct_id = 1, ct_name = ''Ana'', ct_email = ''ana@x.com'',
          ct_subject = None, ct_message = ''me gustaria hablar'', ct_phone = None,
          ct_status = ''RESOLVED'', ct_adminNotes = None, ct_respondedAt = None,
          ct_createdAt = 0, ct_updatedAt = 7\<rparr>], ct_nextId = 2\<rparr>)"
  using respondedAt_set_by_status_routes_only
    [of "\<lparr>ub_status = Some ''RESOLVED'', ub_adminNotes = None, ub_isRead = None\<rparr>"
        "\<lparr>contacts = [\<lparr>ct_id = 1, ct_name = ''Ana'', ct_email = ''ana@x.com'',
          ct_subject = None, ct_message = ''me gustaria hablar'', ct_phone = None,
          ct_status = ''PENDING'', ct_adminNotes = None, ct_respondedAt = None,
          ct_createdAt = 0, ct_updatedAt = 0\<rparr>], ct_nextId = 2\<rparr>"
        7 1 "''RESPONDED''" "\<lambda>s. CHR ''@'' \<in> set s" "\<lambda>s. s"
        "PatchStatus 1 (Some ''RESPONDED'')" 1 7]
  by (simp add: respondedAt_of_def findContact_def contact_route_def patchContactStatus_def
        putContact_def validateUpdateContact_def updateContact_def str_of_def Let_def)

text \<open>
  A request that is no status patch and sets \<open>respondedAt\<close>: a bulk update of contact 1
  to RESPONDED at time 7.
\<close>

theorem bulk_update_sets_respondedAt_counterexample:
  "respondedAt_of \<lparr>contacts = [\<lparr>ct_id = 1, ct_name = ''Ana'', ct_email = ''ana@x.com'',
        ct_subject = None, ct_message = ''me gustaria hablar'', ct_phone = None,
        ct_status = ''PENDING'', ct_adminNotes = None, ct_respondedAt = None,
        ct_createdAt = 0, ct_updatedAt = 0\<rparr>], ct_nextId = 2\<rparr> 1 = Some None
   \<and> contact_route (\<lambda>s. CHR ''@'' \<in> set s) (\<lambda>s. s)
       \<lparr>contacts = [\<lparr>ct_id = 1, ct_name = ''Ana'', ct_email = ''ana@x.com'',
          ct_subject = None, ct_message = ''me gustaria hablar'', ct_phone = None,
          ct_status = ''PENDING'', ct_adminNotes = None, ct_respondedAt = None,
          ct_createdAt = 0, ct_updatedAt = 0\<rparr>], ct_nextId = 2\<rparr>
       7 (BulkUpdate (Some [1]) (Some ''RESPONDED'') None)
     = (200, \<lparr>contacts = [\<lparr>ct_id = 1, ct_name = ''Ana'', ct_email = ''ana@x.com'',
          ct_subject = None, ct_message = ''me gustaria hablar'', ct_phone = None,
          ct_status = ''RESPONDED'', ct_adminNotes = None, ct_respondedAt = Some 7,
          ct_createdAt = 0, ct_updatedAt = 7\<rparr>], ct_nextId = 2\<rparr>)"
  by (simp add: respondedAt_of_def findContact_def contact_route_def bulkUpdateContacts_def
        str_of_def Let_def)

end
